theory Spec2Isabelle
  imports Complex_Main
begin

section \<open>Data model of wiring.js\<close>

text \<open>
  The script keeps its entities as mutable JavaScript objects: circle markers for
  buildings and polygon layers for blocks. Numbers are JavaScript doubles; they are
  modelled as reals (finite values only). Where the source tests for a value that is
  not finite, the model uses an option whose \<open>None\<close> is that value.
\<close>

text \<open>The path options Leaflet holds for a drawn entity, as written by \<open>setStyle\<close>;
  \<open>color = None\<close> is the source's \<open>color:null\<close>.\<close>

record pathStyle =
  weight :: int
  color :: "string option"
  fillOpacity :: real
  fillColor :: string

text \<open>Fields that markers and block layers share: \<open>_selectionRefs\<close>, \<open>_isFiltered\<close>,
  the style currently drawn, and \<open>options.fillColor\<close>.\<close>

record entity =
  selectionRefs :: int
  isFiltered :: bool
  shown :: pathStyle
  optFillColor :: "string option"

text \<open>
  A building marker after \<open>applyMarkerMetadata\<close> has run on it: every underscore
  field is defined, so \<open>ensureMarkerBase\<close> changes nothing and \<open>x || 0\<close> on the counter
  is the counter. \<open>canSetStyle\<close>, \<open>canSetRadius\<close> stand for the source's
  \<open>typeof marker.setStyle === 'function'\<close> and \<open>typeof marker.setRadius === 'function'\<close>.
  \<open>bringToFront\<close> only changes the draw order, which belongs to the map library.
\<close>

record marker = entity +
  baseColor :: string
  baseOpacity :: real
  baseRadius :: real
  isVtu :: bool
  passesMembership :: bool
  colorizedColor :: string
  neutralColor :: string
  optBaseColor :: string
  canSetStyle :: bool
  canSetRadius :: bool
  shownRadius :: real

text \<open>A block layer after the \<open>eachLayer\<close> visit of \<open>wireUp\<close>: \<open>_blockUnits\<close> is finite.\<close>

record blockLayer = entity +
  blockUnits :: real
  baseStyle :: pathStyle

section \<open>Style engine: blocks\<close>

definition flatNeutral :: pathStyle where
  "flatNeutral = \<lparr>weight = 1, color = Some ''#b8b8b8'', fillOpacity = 0.20, fillColor = ''#f0f0f0''\<rparr>"

definition choroplethRatio :: "real \<Rightarrow> real \<Rightarrow> real" where
  "choroplethRatio units blockColorMax = max 0 (min 1 (units / blockColorMax))"

definition choroplethFill :: "real \<Rightarrow> string" where
  "choroplethFill ratio =
     (if ratio \<le> 0.10 then ''#f7fcf5''
      else if ratio \<le> 0.25 then ''#e5f5e0''
      else if ratio \<le> 0.50 then ''#c7e9c0''
      else if ratio \<le> 0.75 then ''#74c476''
      else if ratio < 1.00 then ''#31a354'' else ''#006d2c'')"

definition resetBlockStyle :: "bool \<Rightarrow> real \<Rightarrow> blockLayer \<Rightarrow> blockLayer" where
  "resetBlockStyle blockColorScalingEnabled blockColorMax layer =
     (let units = blockUnits layer;
          base = (if \<not> blockColorScalingEnabled \<or> blockColorMax \<le> 0 then flatNeutral
                  else \<lparr>weight = 1, color = Some ''#b8b8b8'', fillOpacity = 0.35,
                         fillColor = choroplethFill (choroplethRatio units blockColorMax)\<rparr>)
      in layer\<lparr>baseStyle := base, shown := base\<rparr>)"

definition filteredBlockStyle :: pathStyle where
  "filteredBlockStyle = \<lparr>weight = 1, color = Some ''#d0d0d0'', fillOpacity = 0.08, fillColor = ''#f5f5f5''\<rparr>"

text \<open>\<open>setBlockFiltered\<close> on the layer found in \<open>blocksIndex\<close>.\<close>

definition setLayerFiltered :: "bool \<Rightarrow> real \<Rightarrow> blockLayer \<Rightarrow> bool \<Rightarrow> blockLayer" where
  "setLayerFiltered en cmax layer filtered =
     (let l1 = layer\<lparr>isFiltered := filtered\<rparr>
      in if filtered then l1\<lparr>selectionRefs := 0, shown := filteredBlockStyle\<rparr>
         else resetBlockStyle en cmax l1)"

text \<open>\<open>a || b\<close> on strings: the empty string is falsy.\<close>

definition orStr :: "string \<Rightarrow> string \<Rightarrow> string" where
  "orStr a b = (if a \<noteq> [] then a else b)"

definition orNum :: "real \<Rightarrow> real \<Rightarrow> real" where
  "orNum a b = (if a \<noteq> 0 then a else b)"

definition highlightBlock :: "bool \<Rightarrow> real \<Rightarrow> blockLayer \<Rightarrow> bool \<Rightarrow> blockLayer" where
  "highlightBlock en cmax layer on =
     (if isFiltered layer then layer
      else if on then
        (let base = baseStyle layer
         in layer\<lparr>shown := \<lparr>weight = 4, color = Some ''#ff1744'',
                fillOpacity = min 0.9 (orNum (fillOpacity base) 0.35 + 0.1),
                fillColor = orStr (fillColor base)
                              (orStr (case optFillColor layer of None \<Rightarrow> [] | Some c \<Rightarrow> c) ''#c7e9c0'')\<rparr>\<rparr>)
      else resetBlockStyle en cmax layer)"

definition adjustBlockSelection :: "bool \<Rightarrow> real \<Rightarrow> blockLayer \<Rightarrow> int \<Rightarrow> blockLayer" where
  "adjustBlockSelection en cmax layer delta =
     (let l1 = layer\<lparr>selectionRefs := selectionRefs layer + delta\<rparr>;
          l2 = (if selectionRefs l1 < 0 then l1\<lparr>selectionRefs := 0\<rparr> else l1)
      in if \<not> isFiltered l2 then highlightBlock en cmax l2 (selectionRefs l2 > 0) else l2)"

section \<open>Style engine: markers\<close>

definition getScaledRadius :: "real \<Rightarrow> marker \<Rightarrow> real" where
  "getScaledRadius currentZoomScale m =
     (if baseRadius m \<noteq> 0 then baseRadius m else 6) * currentZoomScale"

definition highlightMarker :: "real \<Rightarrow> marker \<Rightarrow> bool \<Rightarrow> marker" where
  "highlightMarker z m on =
     (if isFiltered m then m
      else
        (let bOpacity = orNum (baseOpacity m) 0.35;
             bRadius = getScaledRadius z m;
             bColor = orStr (baseColor m)
                        (orStr (case optFillColor m of None \<Rightarrow> [] | Some c \<Rightarrow> c) ''#9e9e9e'');
             m1 = (if canSetStyle m then
                     m\<lparr>shown := (if on
                         then \<lparr>weight = 2, color = Some ''#ff1744'',
                               fillOpacity = min 0.95 (bOpacity + 0.20), fillColor = bColor\<rparr>
                         else \<lparr>weight = 0, color = None,
                               fillOpacity = bOpacity, fillColor = bColor\<rparr>)\<rparr>
                   else m)
         in if canSetRadius m1 then
              m1\<lparr>shownRadius := (if on then bRadius + max 1.5 (1.5 * z) else bRadius)\<rparr>
            else if \<not> on \<and> canSetStyle m1 then m1\<lparr>shownRadius := bRadius\<rparr>
            else m1))"

definition adjustMarkerSelection :: "real \<Rightarrow> marker \<Rightarrow> int \<Rightarrow> marker" where
  "adjustMarkerSelection z m delta =
     (let m1 = m\<lparr>selectionRefs := selectionRefs m + delta\<rparr>;
          m2 = (if selectionRefs m1 < 0 then m1\<lparr>selectionRefs := 0\<rparr> else m1)
      in if \<not> isFiltered m2 then highlightMarker z m2 (selectionRefs m2 > 0) else m2)"

definition setMarkerVisibility :: "real \<Rightarrow> marker \<Rightarrow> bool \<Rightarrow> marker" where
  "setMarkerVisibility z m visible =
     (let m0 = m\<lparr>isFiltered := \<not> visible\<rparr>
      in if \<not> visible then
           (let m1 = m0\<lparr>selectionRefs := 0\<rparr>;
                m2 = (if canSetStyle m1 then
                        m1\<lparr>shown := \<lparr>weight = 0, color = None, fillOpacity = 0,
                                      fillColor = baseColor m1\<rparr>\<rparr>
                      else m1)
            in if canSetRadius m2 then m2\<lparr>shownRadius := 0\<rparr> else m2)
         else
           (let bOpacity = orNum (baseOpacity m0) 0.35;
                bRadius = getScaledRadius z m0;
                m1 = (if canSetStyle m0 then
                        m0\<lparr>shown := \<lparr>weight = 0, color = None, fillOpacity = bOpacity,
                                      fillColor = baseColor m0\<rparr>\<rparr>
                      else m0);
                m2 = (if canSetRadius m1 then m1\<lparr>shownRadius := bRadius\<rparr> else m1)
            in if selectionRefs m2 > 0 then highlightMarker z m2 True else m2))"

definition updateMarkerColorAppearance :: "bool \<Rightarrow> real \<Rightarrow> marker \<Rightarrow> marker" where
  "updateMarkerColorAppearance colorScalingEnabled z m =
     (let shouldColorize = colorScalingEnabled \<and> isVtu m \<and> passesMembership m;
          coloredColor = orStr (colorizedColor m) (orStr (baseColor m) ''#9e9e9e'');
          neutral = orStr (neutralColor m) ''#9e9e9e'';
          targetColor = (if shouldColorize then coloredColor else neutral);
          m1 = m\<lparr>baseColor := targetColor, optBaseColor := targetColor\<rparr>
      in if isFiltered m1 then m1
         else if selectionRefs m1 > 0 then highlightMarker z m1 True
         else highlightMarker z m1 False)"

text \<open>The body of the \<open>forEach\<close> in \<open>applyZoomScaling\<close>, for one marker.\<close>

definition zoomMarker :: "real \<Rightarrow> marker \<Rightarrow> marker" where
  "zoomMarker z m =
     (if isFiltered m then m
      else
        (let bOpacity = orNum (baseOpacity m) 0.35;
             scaledRadius = getScaledRadius z m;
             m1 = (if canSetRadius m then m\<lparr>shownRadius := scaledRadius\<rparr> else m);
             m2 = (if canSetStyle m1 then
                     m1\<lparr>shown := \<lparr>weight = 0, color = None, fillOpacity = bOpacity,
                        fillColor = orStr (baseColor m1)
                          (orStr (case optFillColor m1 of None \<Rightarrow> [] | Some c \<Rightarrow> c) ''#9e9e9e'')\<rparr>\<rparr>
                   else m1)
         in if selectionRefs m2 > 0 then highlightMarker z m2 True else m2))"

text \<open>The bodies of \<open>buildingHover\<close> and \<open>ownerHover\<close>, for one marker.\<close>

definition hoverMarker :: "real \<Rightarrow> marker \<Rightarrow> bool \<Rightarrow> marker" where
  "hoverMarker z m on =
     (if isFiltered m then m
      else if on then highlightMarker z m True
      else if selectionRefs m = 0 then highlightMarker z m False
      else m)"

definition hoverLayer :: "bool \<Rightarrow> real \<Rightarrow> blockLayer \<Rightarrow> bool \<Rightarrow> blockLayer" where
  "hoverLayer en cmax layer on =
     (if isFiltered layer then layer
      else if on then highlightBlock en cmax layer True
      else if selectionRefs layer = 0 then highlightBlock en cmax layer False
      else layer)"

section \<open>Filter evaluator\<close>

subsection \<open>Membership sub-rule\<close>

record memberRecord =
  has_member_tag :: bool
  latest_membership_year :: "int option"

record filterOpts =
  requireMember :: bool
  minYear :: "int option"

definition yearAtLeast :: "int \<Rightarrow> memberRecord \<Rightarrow> bool" where
  "yearAtLeast yearThreshold r =
     (case latest_membership_year r of None \<Rightarrow> False | Some yr \<Rightarrow> yr \<ge> yearThreshold)"

definition matchesFilters :: "memberRecord list \<Rightarrow> filterOpts \<Rightarrow> bool" where
  "matchesFilters records opts =
     (let hasRecords = (length records > 0)
      in if \<not> requireMember opts \<and> minYear opts = None then True
         else if \<not> hasRecords then False
         else
           (let filtered0 = records;
                filtered1 = (if requireMember opts then filter has_member_tag filtered0 else filtered0);
                filtered2 = (case minYear opts of
                               None \<Rightarrow> filtered1
                             | Some yearThreshold \<Rightarrow> filter (yearAtLeast yearThreshold) filtered1)
            in length filtered2 > 0))"

text \<open>The membership sub-rule in the words of the specification, for comparison: it
  passes when neither criterion is set, and otherwise when some record survives both
  narrowings.\<close>

definition membershipSpec :: "memberRecord list \<Rightarrow> filterOpts \<Rightarrow> bool" where
  "membershipSpec records opts =
     ((\<not> requireMember opts \<and> minYear opts = None) \<or>
      (\<exists>r \<in> set records.
          (requireMember opts \<longrightarrow> has_member_tag r) \<and>
          (case minYear opts of
             None \<Rightarrow> True
           | Some y \<Rightarrow> (case latest_membership_year r of None \<Rightarrow> False | Some yr \<Rightarrow> yr \<ge> y))))"

subsection \<open>Neighbourhood sub-rule\<close>

text \<open>\<open>toLowerCase\<close> and \<open>trim\<close> on ASCII text: the letters A to Z are lowered, and
  tab, line feed, vertical tab, form feed, carriage return and space are white space.\<close>

definition toLowerChar :: "char \<Rightarrow> char" where
  "toLowerChar c =
     (let n = (of_char c :: nat) in if 65 \<le> n \<and> n \<le> 90 then char_of (n + 32) else c)"

definition toLowerCase :: "string \<Rightarrow> string" where
  "toLowerCase s = map toLowerChar s"

definition isSpace :: "char \<Rightarrow> bool" where
  "isSpace c = (let n = (of_char c :: nat) in (9 \<le> n \<and> n \<le> 13) \<or> n = 32)"

definition trim :: "string \<Rightarrow> string" where
  "trim s = rev (dropWhile isSpace (rev (dropWhile isSpace s)))"

record hoodInput =
  checked :: bool
  hoodValue :: string

text \<open>A table row: its \<open>data-*\<close> attributes, the class \<open>hidden\<close>, and the state of
  its \<open>.row-select\<close> checkbox when it has one.\<close>

record tableRow =
  attrs :: "string \<rightharpoonup> string"
  hidden :: bool
  rowSelect :: "bool option"

definition getAttribute :: "tableRow \<Rightarrow> string \<Rightarrow> string option" where
  "getAttribute row name = attrs row name"

text \<open>A value used as a property key or in \<open>String(...)\<close>: \<open>null\<close> becomes the text null.\<close>

definition keyOf :: "string option \<Rightarrow> string" where
  "keyOf v = (case v of None \<Rightarrow> ''null'' | Some s \<Rightarrow> s)"

definition selectedHoods :: "hoodInput list \<Rightarrow> string list" where
  "selectedHoods inputs = map (\<lambda>inp. trim (toLowerCase (hoodValue inp))) (filter checked inputs)"

definition hoodMatches :: "hoodInput list \<Rightarrow> tableRow \<Rightarrow> bool" where
  "hoodMatches inputs row =
     (let selected = selectedHoods inputs;
          hasHoodFilter = (length inputs > 0);
          restrictHoods = (hasHoodFilter \<and> length selected > 0);
          hideWhenNone = (hasHoodFilter \<and> length selected = 0);
          rowArea = trim (toLowerCase (case getAttribute row ''data-area'' of None \<Rightarrow> [] | Some a \<Rightarrow> a))
      in if restrictHoods then rowArea \<in> set selected
         else if hideWhenNone then False
         else True)"

subsection \<open>Metric sub-rule\<close>

record metricSummary =
  summary_min :: real
  summary_max :: real
  step :: "real option"
  attr :: string
  mtype :: "string option"
  format :: "string option"
  use_log :: "bool option"
  min_positive :: "real option"

text \<open>A metric control as \<open>updateMetricLabels\<close> leaves it: the range the two sliders
  currently select.\<close>

record metricControl =
  summary :: metricSummary
  currentMin :: real
  currentMax :: real

record threshold =
  thr_min :: "real option"
  thr_max :: "real option"
  thr_summary :: metricSummary

definition makeThreshold :: "metricControl \<Rightarrow> threshold" where
  "makeThreshold ctrl =
     (let s = summary ctrl;
          minVal = currentMin ctrl;
          maxVal = currentMax ctrl;
          tolerance = (case step s of None \<Rightarrow> 0 | Some st \<Rightarrow> if st = 0 then 0 else st * 0.5)
      in \<lparr>thr_min = (if minVal \<le> summary_min s + tolerance then None else Some minVal),
          thr_max = (if maxVal \<ge> summary_max s - tolerance then None else Some maxVal),
          thr_summary = s\<rparr>)"

text \<open>The value the loop reads for one metric: \<open>None\<close> is NaN. \<open>parseFloat\<close> is the
  browser's; it is a parameter, with \<open>None\<close> for a text it cannot parse.\<close>

definition metricValue :: "(string \<Rightarrow> real option) \<Rightarrow> tableRow \<Rightarrow> threshold \<Rightarrow> real option" where
  "metricValue parseFloat row t =
     (let attrName = ''data-'' @ attr (thr_summary t);
          rawValue = getAttribute row attrName
      in case rawValue of None \<Rightarrow> None
         | Some raw \<Rightarrow> if raw = [] then None else parseFloat raw)"

text \<open>One round of the metric loop: \<open>False\<close> is the \<open>matches = false; break\<close>.\<close>

definition metricCheck :: "(string \<Rightarrow> real option) \<Rightarrow> tableRow \<Rightarrow> threshold \<Rightarrow> bool" where
  "metricCheck parseFloat row t =
     (case metricValue parseFloat row t of
        None \<Rightarrow> True
      | Some v \<Rightarrow>
          (if thr_min t \<noteq> None \<and> v < (case thr_min t of Some lo \<Rightarrow> lo | None \<Rightarrow> 0) then False
           else if thr_max t \<noteq> None \<and> v > (case thr_max t of Some hi \<Rightarrow> hi | None \<Rightarrow> 0) then False
           else True))"

fun metricLoop :: "(string \<Rightarrow> real option) \<Rightarrow> tableRow \<Rightarrow> threshold list \<Rightarrow> bool" where
  "metricLoop parseFloat row [] = True"
| "metricLoop parseFloat row (t # ts) =
     (if metricCheck parseFloat row t then metricLoop parseFloat row ts else False)"

subsection \<open>Filter controls\<close>

record filterUi =
  hoodInputs :: "hoodInput list"
  requireMemberChk :: "bool option"
  yearToggle :: "bool option"
  yearSlider :: "string option"
  metricControls :: "metricControl list"

text \<open>\<open>opts\<close> of \<open>applyFilters\<close>. \<open>parseInt\<close> is the browser's, \<open>None\<close> for NaN; the
  intermediate \<open>Some None\<close> is a year that is NaN, which the guard turns into null.\<close>

definition makeOpts :: "(string \<Rightarrow> int option) \<Rightarrow> filterUi \<Rightarrow> filterOpts" where
  "makeOpts parseInt ui =
     (let rm = (case requireMemberChk ui of None \<Rightarrow> False | Some c \<Rightarrow> c);
          my0 = (case yearSlider ui of
                   None \<Rightarrow> None
                 | Some v \<Rightarrow> if yearToggle ui = Some True then Some (parseInt v) else None);
          my = (if my0 \<noteq> None \<and> my0 = Some None then None
                else (case my0 of None \<Rightarrow> None | Some y \<Rightarrow> y))
      in \<lparr>requireMember = rm, minYear = my\<rparr>)"

section \<open>Logarithmic slider mapping\<close>













section \<open>Registries and event handlers\<close>

text \<open>
  Marker objects are shared: \<open>buildingIndex\<close> and \<open>ownerIndex\<close> hold references to the
  same objects. The store \<open>markers\<close> maps a marker's handle (the name of its global
  variable) to the object; the indices hold handles. \<open>buildingIndex\<close> and
  \<open>blockBuildingIndex\<close> are lists of key and value in \<open>Object.keys\<close> order, read
  with \<open>map_of\<close>. A block layer is referenced from \<open>blocksIndex\<close> only.
\<close>

type_synonym store = "string \<rightharpoonup> marker"

record state =
  markers :: store
  buildingIndex :: "(string \<times> string) list"
  ownerIndex :: "string \<rightharpoonup> string list"
  blocksIndex :: "string \<rightharpoonup> blockLayer"
  blockBuildingIndex :: "(string \<times> string list) list"
  membershipData :: "string \<rightharpoonup> memberRecord list"
  currentZoomScale :: real
  colorScalingEnabled :: bool
  blockColorScalingEnabled :: bool
  blockColorMax :: real
  buildingRows :: "tableRow list"
  blockRows :: "tableRow list"
  landlordRows :: "tableRow list"
  ui :: filterUi

record builtins =
  parseFloat :: "string \<Rightarrow> real option"
  parseInt :: "string \<Rightarrow> int option"

text \<open>Mutating the object behind a handle; a handle without object is the source's
  \<open>if (!marker) return\<close>.\<close>

definition updMarker :: "(marker \<Rightarrow> marker) \<Rightarrow> string \<Rightarrow> store \<Rightarrow> store" where
  "updMarker f a ms = (case ms a of None \<Rightarrow> ms | Some m \<Rightarrow> ms(a \<mapsto> f m))"

text \<open>\<open>var marker = window.buildingIndex[bid]; if (!marker) return; f(marker)\<close>.\<close>

definition atBuilding :: "(string \<times> string) list \<Rightarrow> (marker \<Rightarrow> marker) \<Rightarrow> string \<Rightarrow> store \<Rightarrow> store" where
  "atBuilding bIdx f bid ms = (case map_of bIdx bid of None \<Rightarrow> ms | Some a \<Rightarrow> updMarker f a ms)"

definition selDelta :: "bool \<Rightarrow> int" where
  "selDelta selected = (if selected then 1 else - 1)"

definition setOwnerSelection ::
  "real \<Rightarrow> (string \<rightharpoonup> string list) \<Rightarrow> string \<Rightarrow> bool \<Rightarrow> store \<Rightarrow> store" where
  "setOwnerSelection z oIdx ownerKey selected ms =
     (let arr = (case oIdx ownerKey of None \<Rightarrow> [] | Some hs \<Rightarrow> hs)
      in fold (updMarker (\<lambda>m. adjustMarkerSelection z m (selDelta selected))) arr ms)"

definition setBlockSelectionMarkers ::
  "real \<Rightarrow> (string \<times> string) list \<Rightarrow> (string \<times> string list) list \<Rightarrow> string \<Rightarrow> bool \<Rightarrow> store \<Rightarrow> store" where
  "setBlockSelectionMarkers z bIdx bbIdx blockId selected ms =
     (let ids = (case map_of bbIdx blockId of None \<Rightarrow> [] | Some l \<Rightarrow> l)
      in fold (atBuilding bIdx (\<lambda>m. adjustMarkerSelection z m (selDelta selected))) ids ms)"

definition updLayer :: "(blockLayer \<Rightarrow> blockLayer) \<Rightarrow> string \<Rightarrow> (string \<rightharpoonup> blockLayer) \<Rightarrow> (string \<rightharpoonup> blockLayer)" where
  "updLayer f k idx = (case idx k of None \<Rightarrow> idx | Some l \<Rightarrow> idx(k \<mapsto> f l))"

definition setBlockFiltered :: "string \<Rightarrow> bool \<Rightarrow> state \<Rightarrow> state" where
  "setBlockFiltered blockId filtered s =
     s\<lparr>blocksIndex :=
         updLayer (\<lambda>layer. setLayerFiltered (blockColorScalingEnabled s) (blockColorMax s) layer filtered)
           blockId (blocksIndex s)\<rparr>"

definition buildingHover :: "string \<Rightarrow> bool \<Rightarrow> state \<Rightarrow> state" where
  "buildingHover bid on s =
     s\<lparr>markers := atBuilding (buildingIndex s) (\<lambda>m. hoverMarker (currentZoomScale s) m on) bid (markers s)\<rparr>"

definition blockHover :: "string \<Rightarrow> bool \<Rightarrow> state \<Rightarrow> state" where
  "blockHover blockId on s =
     s\<lparr>blocksIndex :=
         updLayer (\<lambda>layer. hoverLayer (blockColorScalingEnabled s) (blockColorMax s) layer on)
           blockId (blocksIndex s)\<rparr>"

definition ownerHover :: "string \<Rightarrow> bool \<Rightarrow> state \<Rightarrow> state" where
  "ownerHover ownerKey on s =
     (let arr = (case ownerIndex s ownerKey of None \<Rightarrow> [] | Some hs \<Rightarrow> hs)
      in s\<lparr>markers := fold (updMarker (\<lambda>m. hoverMarker (currentZoomScale s) m on)) arr (markers s)\<rparr>)"

datatype rowType = Building | Block | Owner

text \<open>\<open>handleSelectionChange\<close> for a checkbox with \<open>data-type = typ\<close>,
  \<open>data-target = key\<close> and the state \<open>chk\<close> it has after the click. The summary bar
  it refreshes is text only.\<close>

definition handleSelectionChange :: "rowType \<Rightarrow> string \<Rightarrow> bool \<Rightarrow> state \<Rightarrow> state" where
  "handleSelectionChange typ key chk s =
     (let z = currentZoomScale s
      in case typ of
           Building \<Rightarrow>
             s\<lparr>markers := atBuilding (buildingIndex s)
                              (\<lambda>m. adjustMarkerSelection z m (selDelta chk)) key (markers s)\<rparr>
         | Block \<Rightarrow>
             s\<lparr>blocksIndex :=
                  updLayer (\<lambda>layer. adjustBlockSelection (blockColorScalingEnabled s) (blockColorMax s)
                                       layer (selDelta chk)) key (blocksIndex s),
               markers := setBlockSelectionMarkers z (buildingIndex s) (blockBuildingIndex s) key chk (markers s)\<rparr>
         | Owner \<Rightarrow>
             s\<lparr>markers := setOwnerSelection z (ownerIndex s) key chk (markers s)\<rparr>)"

definition applyVtuColorScaling :: "bool \<Rightarrow> state \<Rightarrow> state" where
  "applyVtuColorScaling enabled s =
     s\<lparr>colorScalingEnabled := enabled,
       markers := fold (atBuilding (buildingIndex s)
                          (updateMarkerColorAppearance enabled (currentZoomScale s)))
                    (map fst (buildingIndex s)) (markers s)\<rparr>"

definition applyBlockColorScaling :: "bool \<Rightarrow> state \<Rightarrow> state" where
  "applyBlockColorScaling enabled s =
     s\<lparr>blockColorScalingEnabled := enabled,
       blocksIndex := (\<lambda>key. map_option
                         (\<lambda>layer. if \<not> isFiltered layer then resetBlockStyle enabled (blockColorMax s) layer
                                   else layer)
                         (blocksIndex s key))\<rparr>"

text \<open>\<open>computeZoomScale\<close>; a zoom that is not finite is \<open>None\<close>.\<close>

definition computeZoomScale :: "real \<Rightarrow> real option \<Rightarrow> real" where
  "computeZoomScale current zoom =
     (case zoom of None \<Rightarrow> current
      | Some zm \<Rightarrow> min 2.4 (max 0.35 (1.2 powr (zm - 15))))"

definition applyZoomScaling :: "real option \<Rightarrow> state \<Rightarrow> state" where
  "applyZoomScaling zoom s =
     (let z = computeZoomScale (currentZoomScale s) zoom
      in s\<lparr>currentZoomScale := z,
           markers := fold (atBuilding (buildingIndex s) (zoomMarker z))
                        (map fst (buildingIndex s)) (markers s)\<rparr>)"

section \<open>The filter pass\<close>

text \<open>The verdict \<open>matches\<close> of one row of the buildings table. The search term of the
  source is the constant empty text, so its branch never runs.\<close>

definition rowMatches :: "builtins \<Rightarrow> filterUi \<Rightarrow> tableRow \<Rightarrow> bool" where
  "rowMatches js u row =
     (let thresholds = map makeThreshold (metricControls u);
          matches = hoodMatches (hoodInputs u) row
      in if matches \<and> length (metricControls u) \<noteq> 0
         then metricLoop (parseFloat js) row thresholds
         else matches)"

text \<open>What one round of the loop over the buildings table does to the row's marker.\<close>

definition rowMarkerEffect :: "bool \<Rightarrow> real \<Rightarrow> bool \<Rightarrow> bool \<Rightarrow> bool \<Rightarrow> marker \<Rightarrow> marker" where
  "rowMarkerEffect cse z membershipMatch matches wasChecked m =
     (let m1 = m\<lparr>passesMembership := membershipMatch\<rparr>;
          current = selectionRefs m1;
          m2 = (if \<not> matches \<and> wasChecked \<and> current > 0
                then adjustMarkerSelection z m1 (- current) else m1);
          m3 = setMarkerVisibility z m2 matches
      in updateMarkerColorAppearance cse z m3)"

definition filterRow :: "builtins \<Rightarrow> state \<Rightarrow> tableRow \<Rightarrow> store \<Rightarrow> tableRow \<times> store" where
  "filterRow js s row ms =
     (let bid = keyOf (getAttribute row ''data-bid'');
          records = (case membershipData s bid of None \<Rightarrow> [] | Some rs \<Rightarrow> rs);
          membershipMatch = matchesFilters records (makeOpts (parseInt js) (ui s));
          matches = rowMatches js (ui s) row;
          wasChecked = (rowSelect row = Some True);
          row1 = row\<lparr>hidden := \<not> matches\<rparr>;
          row2 = (if \<not> matches \<and> wasChecked then row1\<lparr>rowSelect := Some False\<rparr> else row1)
      in (row2,
          atBuilding (buildingIndex s)
            (rowMarkerEffect (colorScalingEnabled s) (currentZoomScale s) membershipMatch matches wasChecked)
            bid ms))"

fun filterRows :: "builtins \<Rightarrow> state \<Rightarrow> tableRow list \<Rightarrow> store \<Rightarrow> tableRow list \<times> store \<times> string list" where
  "filterRows js s [] ms = ([], ms, [])"
| "filterRows js s (row # rows) ms =
     (let (row', ms1) = filterRow js s row ms;
          (rows', ms2, visibleBids) = filterRows js s rows ms1;
          bid = keyOf (getAttribute row ''data-bid'')
      in (row' # rows', ms2,
          (if rowMatches js (ui s) row then bid # visibleBids else visibleBids)))"

text \<open>\<open>querySelector\<close> yields the first element that fits; \<open>updFirst\<close> changes it in
  place.\<close>

fun updFirst :: "('a \<Rightarrow> bool) \<Rightarrow> ('a \<Rightarrow> 'a) \<Rightarrow> 'a list \<Rightarrow> 'a list" where
  "updFirst P f [] = []"
| "updFirst P f (x # xs) = (if P x then f x # xs else x # updFirst P f xs)"

definition isBlockRow :: "string \<Rightarrow> tableRow \<Rightarrow> bool" where
  "isBlockRow blockId row = (getAttribute row ''data-block'' = Some blockId)"

text \<open>One round of the loop over \<open>Object.keys(window.blockBuildingIndex)\<close>.\<close>

definition filterBlock :: "string list \<Rightarrow> string \<Rightarrow> state \<Rightarrow> state" where
  "filterBlock visibleBids blockId s =
     (let ids = (case map_of (blockBuildingIndex s) blockId of None \<Rightarrow> [] | Some l \<Rightarrow> l);
          hasVisible = (\<exists>id \<in> set ids. id \<in> set visibleBids);
          row = find (isBlockRow blockId) (blockRows s);
          clear = (case row of None \<Rightarrow> False
                   | Some r \<Rightarrow> \<not> hasVisible \<and> rowSelect r = Some True);
          s1 = s\<lparr>blockRows :=
                   updFirst (isBlockRow blockId)
                     (\<lambda>r. (if clear then r\<lparr>hidden := \<not> hasVisible, rowSelect := Some False\<rparr>
                            else r\<lparr>hidden := \<not> hasVisible\<rparr>))
                     (blockRows s)\<rparr>;
          s2 = (if clear then
                  s1\<lparr>blocksIndex := updLayer (\<lambda>layer. layer\<lparr>selectionRefs := 0\<rparr>) blockId (blocksIndex s1),
                     markers := setBlockSelectionMarkers (currentZoomScale s1) (buildingIndex s1)
                                  (blockBuildingIndex s1) blockId False (markers s1)\<rparr>
                else s1)
      in setBlockFiltered blockId (\<not> hasVisible) s2)"

definition ownerHasVisible :: "tableRow list \<Rightarrow> string \<Rightarrow> bool" where
  "ownerHasVisible bRows owner =
     (\<exists>r \<in> set bRows. getAttribute r ''data-owner'' = Some owner \<and> \<not> hidden r)"

text \<open>One round of the loop over the landlords table; \<open>bRows\<close> are the rows of the
  buildings table as the first loop left them.\<close>

definition filterLandlord :: "state \<Rightarrow> tableRow list \<Rightarrow> tableRow \<Rightarrow> store \<Rightarrow> tableRow \<times> store" where
  "filterLandlord s bRows row ms =
     (let owner = keyOf (getAttribute row ''data-owner'');
          hasVisible = ownerHasVisible bRows owner;
          row1 = row\<lparr>hidden := \<not> hasVisible\<rparr>
      in if \<not> hasVisible \<and> rowSelect row = Some True
         then (row1\<lparr>rowSelect := Some False\<rparr>,
               setOwnerSelection (currentZoomScale s) (ownerIndex s) owner False ms)
         else (row1, ms))"

fun filterLandlords :: "state \<Rightarrow> tableRow list \<Rightarrow> tableRow list \<Rightarrow> store \<Rightarrow> tableRow list \<times> store" where
  "filterLandlords s bRows [] ms = ([], ms)"
| "filterLandlords s bRows (row # rows) ms =
     (let (row', ms1) = filterLandlord s bRows row ms;
          (rows', ms2) = filterLandlords s bRows rows ms1
      in (row' # rows', ms2))"

text \<open>\<open>applyFilters\<close>, after \<open>updateMetricLabels\<close> has refreshed the controls; the
  status cells and the summary bar it refreshes at the end are text only.\<close>

definition applyFilters :: "builtins \<Rightarrow> state \<Rightarrow> state" where
  "applyFilters js s =
     (let (bRows, ms1, visibleBids) = filterRows js s (buildingRows s) (markers s);
          s1 = s\<lparr>buildingRows := bRows, markers := ms1\<rparr>;
          s2 = fold (filterBlock visibleBids) (map fst (blockBuildingIndex s1)) s1;
          (lRows, ms3) = filterLandlords s2 (buildingRows s2) (landlordRows s2) (markers s2)
      in s2\<lparr>landlordRows := lRows, markers := ms3\<rparr>)"

section \<open>Events and reachable states\<close>

text \<open>
  What the user can do after \<open>wireUp\<close>: click the checkbox of a row, move the pointer
  over or off a row, change a filter control, toggle either colour switch, move or
  zoom the map. The reset button is a sequence of these.
\<close>

datatype event =
    SelectionChange rowType nat
  | BuildingHover string bool
  | BlockHover string bool
  | OwnerHover string bool
  | FiltersChanged filterUi
  | VtuColorScaling bool
  | BlockColorScaling bool
  | ZoomScaling "real option"

definition rowsOf :: "rowType \<Rightarrow> state \<Rightarrow> tableRow list" where
  "rowsOf typ s = (case typ of Building \<Rightarrow> buildingRows s | Block \<Rightarrow> blockRows s | Owner \<Rightarrow> landlordRows s)"

definition setRowsOf :: "rowType \<Rightarrow> tableRow list \<Rightarrow> state \<Rightarrow> state" where
  "setRowsOf typ rows s =
     (case typ of Building \<Rightarrow> s\<lparr>buildingRows := rows\<rparr>
      | Block \<Rightarrow> s\<lparr>blockRows := rows\<rparr>
      | Owner \<Rightarrow> s\<lparr>landlordRows := rows\<rparr>)"

definition idAttr :: "rowType \<Rightarrow> string" where
  "idAttr typ = (case typ of Building \<Rightarrow> ''data-bid'' | Block \<Rightarrow> ''data-block'' | Owner \<Rightarrow> ''data-owner'')"

text \<open>A click on the checkbox of row \<open>i\<close> of a table: the browser flips the box, then
  the handler runs with the row's identity as \<open>data-target\<close>.\<close>

definition clickRow :: "rowType \<Rightarrow> nat \<Rightarrow> state \<Rightarrow> state" where
  "clickRow typ i s =
     (let rows = rowsOf typ s
      in if i < length rows then
           (case rowSelect (rows ! i) of
              None \<Rightarrow> s
            | Some c \<Rightarrow>
                handleSelectionChange typ (keyOf (getAttribute (rows ! i) (idAttr typ))) (\<not> c)
                  (setRowsOf typ (rows[i := (rows ! i)\<lparr>rowSelect := Some (\<not> c)\<rparr>]) s))
         else s)"

fun step :: "builtins \<Rightarrow> state \<Rightarrow> event \<Rightarrow> state" where
  "step js s (SelectionChange typ i) = clickRow typ i s"
| "step js s (BuildingHover bid on) = buildingHover bid on s"
| "step js s (BlockHover blockId on) = blockHover blockId on s"
| "step js s (OwnerHover ownerKey on) = ownerHover ownerKey on s"
| "step js s (FiltersChanged u) = applyFilters js (s\<lparr>ui := u\<rparr>)"
| "step js s (VtuColorScaling enabled) = applyVtuColorScaling enabled s"
| "step js s (BlockColorScaling enabled) = applyBlockColorScaling enabled s"
| "step js s (ZoomScaling zoom) = applyZoomScaling zoom s"

definition run :: "builtins \<Rightarrow> state \<Rightarrow> event list \<Rightarrow> state" where
  "run js s evs = foldl (step js) s evs"

text \<open>The state \<open>wireUp\<close> builds before its first filter pass: \<open>applyMarkerMetadata\<close>
  and the \<open>eachLayer\<close> visit set every counter to 0 and every \<open>_isFiltered\<close> to false.\<close>

definition initial :: "state \<Rightarrow> bool" where
  "initial s =
     ((\<forall>a m. markers s a = Some m \<longrightarrow> selectionRefs m = 0 \<and> \<not> isFiltered m) \<and>
      (\<forall>k l. blocksIndex s k = Some l \<longrightarrow> selectionRefs l = 0 \<and> \<not> isFiltered l))"

section \<open>Invariants\<close>

text \<open>The highlight overlay forces the accent stroke colour; no other style of the
  script uses it.\<close>

definition highlighted :: "'a entity_scheme \<Rightarrow> bool" where
  "highlighted e = (color (shown e) = Some ''#ff1744'')"

text \<open>The style \<open>setMarkerVisibility\<close> gives a marker that the filter hides.\<close>

definition hiddenStyle :: "pathStyle \<Rightarrow> bool" where
  "hiddenStyle st = (weight st = 0 \<and> color st = None \<and> fillOpacity st = 0)"

definition markerInv :: "marker \<Rightarrow> bool" where
  "markerInv m =
     ((isFiltered m \<and> canSetStyle m \<longrightarrow> hiddenStyle (shown m)) \<and>
      (isFiltered m \<and> canSetRadius m \<longrightarrow> shownRadius m = 0) \<and>
      (\<not> isFiltered m \<and> 0 < selectionRefs m \<and> canSetStyle m \<longrightarrow> highlighted m))"

definition blockInv :: "blockLayer \<Rightarrow> bool" where
  "blockInv l = (isFiltered l \<longrightarrow> shown l = filteredBlockStyle)"

definition storeInv :: "store \<Rightarrow> bool" where
  "storeInv ms = (\<forall>a m. ms a = Some m \<longrightarrow> markerInv m)"

definition stateInv :: "state \<Rightarrow> bool" where
  "stateInv s = (storeInv (markers s) \<and> (\<forall>k l. blocksIndex s k = Some l \<longrightarrow> blockInv l))"

text \<open>The identifiers of the rows that pass, as the first loop of \<open>applyFilters\<close>
  collects them in \<open>visibleBids\<close>.\<close>

definition passing :: "builtins \<Rightarrow> state \<Rightarrow> string list" where
  "passing js s =
     map (\<lambda>row. keyOf (getAttribute row ''data-bid''))
       (filter (rowMatches js (ui s)) (buildingRows s))"

section \<open>Which markers a filter pass can reach\<close>

text \<open>The marker objects that the rows of the buildings table resolve to.\<close>

definition rowHandles :: "state \<Rightarrow> string set" where
  "rowHandles s =
     {a. \<exists>row \<in> set (buildingRows s).
           map_of (buildingIndex s) (keyOf (getAttribute row ''data-bid'')) = Some a}"

text \<open>The marker objects \<open>setBlockSelectionMarkers\<close> and \<open>setOwnerSelection\<close> visit.\<close>

definition blockMembers :: "state \<Rightarrow> string \<Rightarrow> string list" where
  "blockMembers s blockId =
     List.map_filter (map_of (buildingIndex s))
       (case map_of (blockBuildingIndex s) blockId of None \<Rightarrow> [] | Some ids \<Rightarrow> ids)"

definition ownerMembers :: "state \<Rightarrow> string \<Rightarrow> string list" where
  "ownerMembers s ownerKey = (case ownerIndex s ownerKey of None \<Rightarrow> [] | Some hs \<Rightarrow> hs)"

text \<open>The members of the blocks and owners whose row is checked.\<close>

definition cascadeHandles :: "state \<Rightarrow> string set" where
  "cascadeHandles s =
     (\<Union>row \<in> set (blockRows s).
        if rowSelect row = Some True
        then set (blockMembers s (keyOf (getAttribute row ''data-block''))) else {}) \<union>
     (\<Union>row \<in> set (landlordRows s).
        if rowSelect row = Some True
        then set (ownerMembers s (keyOf (getAttribute row ''data-owner''))) else {})"

text \<open>Rows of a table at a later moment of a pass: same attributes, and no box checked
  that was not checked before.\<close>

definition rowsBelow :: "tableRow list \<Rightarrow> tableRow list \<Rightarrow> bool" where
  "rowsBelow rows' rows =
     list_all2 (\<lambda>r' r. attrs r' = attrs r \<and> (rowSelect r' = Some True \<longrightarrow> rowSelect r = Some True))
       rows' rows"


section \<open>Sample data\<close>

definition demoMarker :: marker where
  "demoMarker = \<lparr>selectionRefs = 0, isFiltered = False,
     shown = \<lparr>weight = 0, color = None, fillOpacity = 0.5, fillColor = ''#1f77b4''\<rparr>,
     optFillColor = Some ''#1f77b4'',
     baseColor = ''#1f77b4'', baseOpacity = 0.5, baseRadius = 6, isVtu = True,
     passesMembership = True, colorizedColor = ''#1f77b4'', neutralColor = ''#9e9e9e'',
     optBaseColor = ''#1f77b4'', canSetStyle = True, canSetRadius = True, shownRadius = 6\<rparr>"

definition demoLayer :: "real \<Rightarrow> blockLayer" where
  "demoLayer units = \<lparr>selectionRefs = 0, isFiltered = False, shown = flatNeutral,
     optFillColor = None, blockUnits = units, baseStyle = flatNeutral\<rparr>"

definition demoSummary :: metricSummary where
  "demoSummary = \<lparr>summary_min = 1, summary_max = 1000, step = None, attr = ''rent'',
     mtype = None, format = None, use_log = Some True, min_positive = Some 1\<rparr>"

definition demoRow :: "string \<Rightarrow> string \<Rightarrow> tableRow" where
  "demoRow area rent = \<lparr>attrs = [''data-bid'' \<mapsto> ''b1'', ''data-area'' \<mapsto> area, ''data-rent'' \<mapsto> rent],
     hidden = False, rowSelect = Some False\<rparr>"

definition demoHoods :: "bool \<Rightarrow> bool \<Rightarrow> hoodInput list" where
  "demoHoods c1 c2 = [\<lparr>checked = c1, hoodValue = ''West End''\<rparr>, \<lparr>checked = c2, hoodValue = ''Kitsilano ''\<rparr>]"

definition demoParseFloat :: "string \<Rightarrow> real option" where
  "demoParseFloat raw = (if raw = ''12'' then Some 12 else if raw = ''2500'' then Some 2500 else None)"

definition demoParseInt :: "string \<Rightarrow> int option" where
  "demoParseInt raw = (if raw = ''2019'' then Some 2019 else None)"

definition demoThreshold :: threshold where
  "demoThreshold = \<lparr>thr_min = Some 100, thr_max = Some 900, thr_summary = demoSummary\<rparr>"

definition demoUi :: "string \<Rightarrow> filterUi" where
  "demoUi year = \<lparr>hoodInputs = [], requireMemberChk = Some False, yearToggle = Some True,
     yearSlider = Some year, metricControls = []\<rparr>"

definition demoMarkerAt :: "string \<Rightarrow> marker" where
  "demoMarkerAt c = demoMarker\<lparr>baseColor := c, colorizedColor := c, optBaseColor := c\<rparr>"

definition demoBuildingRow :: "string \<Rightarrow> string \<Rightarrow> string \<Rightarrow> tableRow" where
  "demoBuildingRow b area rent =
     \<lparr>attrs = [''data-bid'' \<mapsto> b, ''data-area'' \<mapsto> area, ''data-owner'' \<mapsto> ''o1'', ''data-rent'' \<mapsto> rent],
      hidden = False, rowSelect = Some False\<rparr>"

definition demoIdRow :: "string \<Rightarrow> string \<Rightarrow> tableRow" where
  "demoIdRow name v = \<lparr>attrs = [name \<mapsto> v], hidden = False, rowSelect = Some False\<rparr>"

definition demoFilterUi :: "bool \<Rightarrow> bool \<Rightarrow> filterUi" where
  "demoFilterUi c1 c2 = \<lparr>hoodInputs = demoHoods c1 c2, requireMemberChk = Some False,
     yearToggle = Some False, yearSlider = Some ''2019'', metricControls = []\<rparr>"

definition demoJs :: builtins where
  "demoJs = \<lparr>parseFloat = demoParseFloat, parseInt = demoParseInt\<rparr>"

text \<open>Three buildings of one owner: \<open>b1\<close> and \<open>b3\<close> lie in block \<open>k1\<close>, \<open>b3\<close> has no
  row in the buildings table, and block \<open>k0\<close> has no building at all.\<close>

definition demoState :: state where
  "demoState =
     \<lparr>markers = [''m1'' \<mapsto> demoMarkerAt ''#1f77b4'', ''m2'' \<mapsto> demoMarkerAt ''#2ca02c'',
                 ''m3'' \<mapsto> demoMarkerAt ''#d62728''],
      buildingIndex = [(''b1'', ''m1''), (''b2'', ''m2''), (''b3'', ''m3'')],
      ownerIndex = [''o1'' \<mapsto> [''m1'', ''m2'']],
      blocksIndex = [''k1'' \<mapsto> demoLayer 50, ''k0'' \<mapsto> demoLayer 200],
      blockBuildingIndex = [(''k1'', [''b1'', ''b3''])],
      membershipData = Map.empty,
      currentZoomScale = 1,
      colorScalingEnabled = True,
      blockColorScalingEnabled = True,
      blockColorMax = 200,
      buildingRows = [demoBuildingRow ''b1'' ''West End'' ''2500'', demoBuildingRow ''b2'' ''Kitsilano'' ''n/a''],
      blockRows = [demoIdRow ''data-block'' ''k1'', demoIdRow ''data-block'' ''k0''],
      landlordRows = [demoIdRow ''data-owner'' ''o1''],
      ui = demoFilterUi True True\<rparr>"

text \<open>After the first filter pass the user checks the row of block \<open>k1\<close> and then
  unchecks both neighbourhoods; \<open>demoSelected\<close> is the state in which the second pass
  starts.\<close>

definition demoSelected :: state where
  "demoSelected =
     (run demoJs demoState [FiltersChanged (demoFilterUi True True), SelectionChange Block 0])
       \<lparr>ui := demoFilterUi False False\<rparr>"







section \<open>Properties\<close>

section \<open>Selection counter\<close>

lemma adjustMarker_refs: "selectionRefs (adjustMarkerSelection z m d) = max 0 (selectionRefs m + d)"
  by (simp add: adjustMarkerSelection_def highlightMarker_def Let_def)

lemma adjustBlock_refs: "selectionRefs (adjustBlockSelection en cmax l d) = max 0 (selectionRefs l + d)"
  by (simp add: adjustBlockSelection_def highlightBlock_def resetBlockStyle_def Let_def)

lemma foldl_adjustMarker_nonneg:
  "0 \<le> selectionRefs m \<Longrightarrow> 0 \<le> selectionRefs (foldl (adjustMarkerSelection z) m ds)"
  by (induction ds arbitrary: m) (simp_all add: adjustMarker_refs)

lemma foldl_adjustBlock_nonneg:
  "0 \<le> selectionRefs l \<Longrightarrow> 0 \<le> selectionRefs (foldl (adjustBlockSelection en cmax) l ds)"
  by (induction ds arbitrary: l) (simp_all add: adjustBlock_refs)

text \<open>
  Claim C4. After any non-empty sequence of \<open>adjust\<close> calls on a marker or on a block
  layer the counter is at least 0, whatever the deltas are (so in particular for deltas
  of plus or minus one), and one call leaves \<open>max 0 (count + delta)\<close>: a decrement that
  would go below zero leaves zero.
\<close>

theorem selectionRefs_never_negative:
  "(ds \<noteq> [] \<longrightarrow> 0 \<le> selectionRefs (foldl (adjustMarkerSelection z) m ds)) \<and>
   (ds \<noteq> [] \<longrightarrow> 0 \<le> selectionRefs (foldl (adjustBlockSelection en cmax) l ds)) \<and>
   selectionRefs (adjustMarkerSelection z m d) = max 0 (selectionRefs m + d) \<and>
   selectionRefs (adjustBlockSelection en cmax l d) = max 0 (selectionRefs l + d)"
proof -
  have "0 \<le> selectionRefs (foldl (adjustMarkerSelection z) m ds)" if "ds \<noteq> []"
  proof -
    from that obtain x xs where ds: "ds = x # xs" by (cases ds) auto
    have "0 \<le> selectionRefs (adjustMarkerSelection z m x)" by (simp add: adjustMarker_refs)
    then show ?thesis unfolding ds by (simp add: foldl_adjustMarker_nonneg)
  qed
  moreover have "0 \<le> selectionRefs (foldl (adjustBlockSelection en cmax) l ds)" if "ds \<noteq> []"
  proof -
    from that obtain x xs where ds: "ds = x # xs" by (cases ds) auto
    have "0 \<le> selectionRefs (adjustBlockSelection en cmax l x)" by (simp add: adjustBlock_refs)
    then show ?thesis unfolding ds by (simp add: foldl_adjustBlock_nonneg)
  qed
  ultimately show ?thesis by (simp add: adjustMarker_refs adjustBlock_refs)
qed

text \<open>Select once, deselect twice: the counter ends at zero, not at minus one.\<close>

theorem selectionRefs_never_negative_witness:
  "[1, - 1, - 1] \<noteq> ([] :: int list) \<and>
   selectionRefs (foldl (adjustMarkerSelection 1) demoMarker [1, - 1, - 1]) = 0 \<and>
   selectionRefs (foldl (adjustBlockSelection True 200 ) (demoLayer 50) [1, - 1, - 1]) = 0 \<and>
   selectionRefs (adjustMarkerSelection 1 demoMarker (- 1)) = 0 \<and>
   selectionRefs (adjustBlockSelection True 200 (demoLayer 50) (- 1)) = 0"
  using selectionRefs_never_negative [of "[1, - 1, - 1]" 1 demoMarker True 200 "demoLayer 50" "- 1"]
  by (simp add: adjustMarker_refs adjustBlock_refs demoMarker_def demoLayer_def)

section \<open>Filter evaluator\<close>

text \<open>
  Claim C5. \<open>matchesFilters\<close> passes when neither \<open>requireMember\<close> nor \<open>minYear\<close> is
  set; otherwise it passes exactly when some membership record survives both narrowings:
  it carries the member tag if membership is required, and it has a year that is not null
  and at least \<open>minYear\<close> if a minimum year is set.
\<close>

theorem membership_rule:
  "matchesFilters records opts = membershipSpec records opts"
  by (cases "minYear opts")
     (auto simp: matchesFilters_def membershipSpec_def Let_def yearAtLeast_def filter_empty_conv
           split: option.splits)

text \<open>The scenario of the specification: a tagged record of 2019 fails a minimum year
  of 2020 and passes one of 2018; a record without year fails the year narrowing.\<close>

theorem membership_rule_witness:
  "\<not> matchesFilters [\<lparr>has_member_tag = True, latest_membership_year = Some 2019\<rparr>]
        \<lparr>requireMember = True, minYear = Some 2020\<rparr> \<and>
   matchesFilters [\<lparr>has_member_tag = True, latest_membership_year = Some 2019\<rparr>]
        \<lparr>requireMember = True, minYear = Some 2018\<rparr> \<and>
   \<not> matchesFilters [\<lparr>has_member_tag = True, latest_membership_year = None\<rparr>]
        \<lparr>requireMember = False, minYear = Some 2018\<rparr> \<and>
   matchesFilters [] \<lparr>requireMember = False, minYear = None\<rparr>"
  using membership_rule [of "[\<lparr>has_member_tag = True, latest_membership_year = Some 2019\<rparr>]"
                            "\<lparr>requireMember = True, minYear = Some 2020\<rparr>"]
        membership_rule [of "[\<lparr>has_member_tag = True, latest_membership_year = Some 2019\<rparr>]"
                            "\<lparr>requireMember = True, minYear = Some 2018\<rparr>"]
        membership_rule [of "[\<lparr>has_member_tag = True, latest_membership_year = None\<rparr>]"
                            "\<lparr>requireMember = False, minYear = Some 2018\<rparr>"]
        membership_rule [of "[]" "\<lparr>requireMember = False, minYear = None\<rparr>"]
  by (simp add: membershipSpec_def)

section \<open>Choropleth\<close>

text \<open>
  Claim C6 as stated fails: with colouring enabled and a positive maximum, a block whose
  ratio is 0 gets the lightest step of the palette at fill opacity 0.35, not the flat
  neutral style. Only a disabled switch or a maximum that is not positive gives the flat
  neutral style.
\<close>

theorem choropleth_zero_ratio_counterexample:
  "blockUnits (demoLayer 0) / 200 \<le> 0 \<and>
   shown (resetBlockStyle True 200 (demoLayer 0)) \<noteq> flatNeutral \<and>
   shown (resetBlockStyle True 200 (demoLayer 0)) =
     \<lparr>weight = 1, color = Some ''#b8b8b8'', fillOpacity = 0.35, fillColor = ''#f7fcf5''\<rparr>"
  by (simp add: resetBlockStyle_def demoLayer_def flatNeutral_def choroplethFill_def choroplethRatio_def Let_def)

text \<open>
  Claim C6, amended. With colouring enabled and a positive maximum, \<open>resetBlockStyle\<close>
  draws the block with the palette step of the ratio \<open>totalUnits / maximum\<close> clamped to
  the interval from 0 to 1: up to 0.10 the lightest step (also for a ratio of 0 or
  below), then the steps ending at 0.25, 0.50, 0.75, below 1.00, and the darkest step
  from 1.00 on. With colouring disabled or a maximum that is not positive it draws the
  flat neutral style.
\<close>

theorem choropleth_fill:
  "(en \<and> cmax > 0 \<longrightarrow>
      (let r = blockUnits l / cmax; st = shown (resetBlockStyle en cmax l)
       in st = \<lparr>weight = 1, color = Some ''#b8b8b8'', fillOpacity = 0.35,
                fillColor = choroplethFill (choroplethRatio (blockUnits l) cmax)\<rparr> \<and>
          0 \<le> choroplethRatio (blockUnits l) cmax \<and> choroplethRatio (blockUnits l) cmax \<le> 1 \<and>
          (r \<le> 0.10 \<longrightarrow> fillColor st = ''#f7fcf5'') \<and>
          (0.10 < r \<and> r \<le> 0.25 \<longrightarrow> fillColor st = ''#e5f5e0'') \<and>
          (0.25 < r \<and> r \<le> 0.50 \<longrightarrow> fillColor st = ''#c7e9c0'') \<and>
          (0.50 < r \<and> r \<le> 0.75 \<longrightarrow> fillColor st = ''#74c476'') \<and>
          (0.75 < r \<and> r < 1.00 \<longrightarrow> fillColor st = ''#31a354'') \<and>
          (1.00 \<le> r \<longrightarrow> fillColor st = ''#006d2c''))) \<and>
   (\<not> en \<or> cmax \<le> 0 \<longrightarrow> shown (resetBlockStyle en cmax l) = flatNeutral)"
proof -
  define r where "r = blockUnits l / cmax"
  show ?thesis
    unfolding resetBlockStyle_def choroplethRatio_def Let_def r_def [symmetric]
    by (auto simp: choroplethFill_def min_def max_def)
qed

text \<open>50 units of at most 200 fall into the second step; 500 of 200 are clamped to ratio 1.\<close>

theorem choropleth_fill_witness:
  "fillColor (shown (resetBlockStyle True 200 (demoLayer 50))) = ''#e5f5e0'' \<and>
   fillColor (shown (resetBlockStyle True 200 (demoLayer 500))) = ''#006d2c'' \<and>
   choroplethRatio 500 200 = 1 \<and>
   shown (resetBlockStyle True 0 (demoLayer 50)) = flatNeutral \<and>
   shown (resetBlockStyle False 200 (demoLayer 50)) = flatNeutral"
  using choropleth_fill [of True 200 "demoLayer 50"] choropleth_fill [of True 200 "demoLayer 500"]
        choropleth_fill [of True 0 "demoLayer 50"] choropleth_fill [of False 200 "demoLayer 50"]
  by (simp add: Let_def demoLayer_def choroplethRatio_def choroplethFill_def)

section \<open>Neighbourhood and metric sub-rules\<close>

text \<open>
  Claim C7. Without neighbourhood options every row passes the sub-rule; with options
  of which none is checked every row fails; with one or more checked a row passes
  exactly when its \<open>data-area\<close>, lowered and trimmed, is among the lowered and trimmed
  values of the checked options.
\<close>

theorem neighbourhood_rule:
  "(inputs = [] \<longrightarrow> hoodMatches inputs row) \<and>
   (inputs \<noteq> [] \<and> filter checked inputs = [] \<longrightarrow> \<not> hoodMatches inputs row) \<and>
   (filter checked inputs \<noteq> [] \<longrightarrow>
      hoodMatches inputs row =
        (trim (toLowerCase (case getAttribute row ''data-area'' of None \<Rightarrow> [] | Some a \<Rightarrow> a))
           \<in> (\<lambda>inp. trim (toLowerCase (hoodValue inp))) ` set (filter checked inputs)))"
proof -
  have ne: "inputs \<noteq> []" if "filter checked inputs \<noteq> []"
    using that by auto
  show ?thesis
    using ne by (auto simp: hoodMatches_def selectedHoods_def Let_def)
qed

lemma norm_demo:
  "trim (toLowerCase ''  KITSILANO'') = ''kitsilano''"
  "trim (toLowerCase ''Kitsilano '') = ''kitsilano''"
  "trim (toLowerCase ''West End'') = ''west end''"
  by code_simp+

text \<open>Two options; the row's area differs from the second in case and white space only.\<close>

theorem neighbourhood_rule_witness:
  "hoodMatches [] (demoRow ''  KITSILANO'' ''12'') \<and>
   demoHoods False False \<noteq> [] \<and> filter checked (demoHoods False False) = [] \<and>
   \<not> hoodMatches (demoHoods False False) (demoRow ''  KITSILANO'' ''12'') \<and>
   filter checked (demoHoods False True) \<noteq> [] \<and>
   hoodMatches (demoHoods False True) (demoRow ''  KITSILANO'' ''12'') \<and>
   \<not> hoodMatches (demoHoods True False) (demoRow ''  KITSILANO'' ''12'')"
  using neighbourhood_rule [of "[]" "demoRow ''  KITSILANO'' ''12''"]
        neighbourhood_rule [of "demoHoods False False" "demoRow ''  KITSILANO'' ''12''"]
        neighbourhood_rule [of "demoHoods False True" "demoRow ''  KITSILANO'' ''12''"]
        neighbourhood_rule [of "demoHoods True False" "demoRow ''  KITSILANO'' ''12''"]
  by (simp add: demoHoods_def demoRow_def getAttribute_def norm_demo)

text \<open>
  Claim C8. A row whose attribute for a metric is missing, empty or not parseable passes
  that metric's check, and the loop goes on to the next metric. A year slider whose
  value does not parse as an integer gives \<open>minYear = null\<close>: the options are those of
  a switched-off year control, and without a membership requirement every building
  passes the membership rule.
\<close>

theorem missing_value_and_bad_year:
  "(getAttribute row (''data-'' @ attr (thr_summary t)) = None \<or>
    getAttribute row (''data-'' @ attr (thr_summary t)) = Some [] \<or>
    (\<exists>raw. getAttribute row (''data-'' @ attr (thr_summary t)) = Some raw \<and> pf raw = None)
    \<longrightarrow> metricCheck pf row t \<and> metricLoop pf row (t # ts) = metricLoop pf row ts) \<and>
   (yearSlider u = Some v \<and> pint v = None
    \<longrightarrow> minYear (makeOpts pint u) = None \<and>
        makeOpts pint u = makeOpts pint (u\<lparr>yearToggle := Some False\<rparr>) \<and>
        (\<not> requireMember (makeOpts pint u) \<longrightarrow> matchesFilters records (makeOpts pint u)))"
  by (auto simp: metricCheck_def metricValue_def makeOpts_def matchesFilters_def Let_def
           split: option.splits)

text \<open>A rent of \<open>n/a\<close> passes a range that the rent 12 fails; the year \<open>abc\<close> is no
  constraint, while the year 2019 fails a building without records.\<close>

theorem missing_value_and_bad_year_witness:
  "getAttribute (demoRow ''x'' ''n/a'') (''data-'' @ attr (thr_summary demoThreshold)) = Some ''n/a'' \<and>
   demoParseFloat ''n/a'' = None \<and>
   metricCheck demoParseFloat (demoRow ''x'' ''n/a'') demoThreshold \<and>
   \<not> metricCheck demoParseFloat (demoRow ''x'' ''12'') demoThreshold \<and>
   yearSlider (demoUi ''abc'') = Some ''abc'' \<and> demoParseInt ''abc'' = None \<and>
   minYear (makeOpts demoParseInt (demoUi ''abc'')) = None \<and>
   matchesFilters [] (makeOpts demoParseInt (demoUi ''abc'')) \<and>
   \<not> matchesFilters [] (makeOpts demoParseInt (demoUi ''2019''))"
  using missing_value_and_bad_year [of "demoRow ''x'' ''n/a''" demoThreshold demoParseFloat "[]"
          "demoUi ''abc''" "''abc''" demoParseInt "[]"]
  by (simp add: demoRow_def demoThreshold_def demoSummary_def getAttribute_def demoParseFloat_def
        demoParseInt_def demoUi_def makeOpts_def matchesFilters_def metricCheck_def metricValue_def
        Let_def)

section \<open>Logarithmic slider mapping\<close>





















section \<open>Invariants of the event handlers\<close>

subsection \<open>Markers\<close>

lemma highlightMarker_fields [simp]:
  "isFiltered (highlightMarker z m on) = isFiltered m"
  "selectionRefs (highlightMarker z m on) = selectionRefs m"
  "canSetStyle (highlightMarker z m on) = canSetStyle m"
  "canSetRadius (highlightMarker z m on) = canSetRadius m"
  by (simp_all add: highlightMarker_def Let_def)

lemma highlightMarker_filtered [simp]: "isFiltered m \<Longrightarrow> highlightMarker z m on = m"
  by (simp add: highlightMarker_def)

lemma highlightMarker_on:
  "\<not> isFiltered m \<Longrightarrow> canSetStyle m \<Longrightarrow> highlighted (highlightMarker z m True)"
  by (simp add: highlightMarker_def Let_def highlighted_def)

lemma highlightMarker_off:
  "\<not> isFiltered m \<Longrightarrow> canSetStyle m \<Longrightarrow> \<not> highlighted (highlightMarker z m False)"
  by (simp add: highlightMarker_def Let_def highlighted_def)

lemma highlightMarker_inv:
  "markerInv m \<Longrightarrow> on \<or> selectionRefs m \<le> 0 \<Longrightarrow> markerInv (highlightMarker z m on)"
  by (cases "isFiltered m") (auto simp: markerInv_def highlightMarker_on)

lemma adjustMarker_filtered [simp]:
  "isFiltered (adjustMarkerSelection z m d) = isFiltered m"
  by (simp add: adjustMarkerSelection_def Let_def)

lemma adjustMarker_inv: "markerInv m \<Longrightarrow> markerInv (adjustMarkerSelection z m d)"
proof (cases "isFiltered m")
  case True
  assume "markerInv m"
  with True show ?thesis by (simp add: adjustMarkerSelection_def Let_def markerInv_def)
next
  case False
  let ?m2 = "m\<lparr>selectionRefs := max 0 (selectionRefs m + d)\<rparr>"
  have eq: "adjustMarkerSelection z m d = highlightMarker z ?m2 (selectionRefs ?m2 > 0)"
    using False by (simp add: adjustMarkerSelection_def Let_def max_def)
  show ?thesis unfolding eq using False
    by (auto simp: markerInv_def highlightMarker_on)
qed

lemma hoverMarker_inv: "markerInv m \<Longrightarrow> markerInv (hoverMarker z m on)"
  by (simp add: hoverMarker_def highlightMarker_inv)

lemma setMarkerVisibility_inv: "markerInv (setMarkerVisibility z m visible)"
  by (auto simp: setMarkerVisibility_def Let_def markerInv_def hiddenStyle_def highlightMarker_on)

lemma zoomMarker_inv: "markerInv m \<Longrightarrow> markerInv (zoomMarker z m)"
  by (auto simp: zoomMarker_def Let_def markerInv_def highlightMarker_on)

lemma updateColor_inv: "markerInv m \<Longrightarrow> markerInv (updateMarkerColorAppearance cse z m)"
  by (auto simp: updateMarkerColorAppearance_def Let_def markerInv_def highlightMarker_on)

lemma rowMarkerEffect_inv: "markerInv (rowMarkerEffect cse z mm matches wc m)"
  by (simp add: rowMarkerEffect_def Let_def updateColor_inv setMarkerVisibility_inv)

subsection \<open>Block layers\<close>

lemma setLayerFiltered_inv: "blockInv (setLayerFiltered en cmax l f)"
  by (simp add: setLayerFiltered_def blockInv_def resetBlockStyle_def Let_def)

lemma adjustBlock_inv: "blockInv l \<Longrightarrow> blockInv (adjustBlockSelection en cmax l d)"
  by (auto simp: adjustBlockSelection_def highlightBlock_def resetBlockStyle_def blockInv_def Let_def)

lemma hoverLayer_inv: "blockInv l \<Longrightarrow> blockInv (hoverLayer en cmax l on)"
  by (auto simp: hoverLayer_def highlightBlock_def resetBlockStyle_def blockInv_def Let_def)

lemma recolour_inv:
  "blockInv l \<Longrightarrow> blockInv (if \<not> isFiltered l then resetBlockStyle en cmax l else l)"
  by (auto simp: resetBlockStyle_def blockInv_def Let_def)

lemma clearRefs_inv: "blockInv l \<Longrightarrow> blockInv (l\<lparr>selectionRefs := 0\<rparr>)"
  by (simp add: blockInv_def)

subsection \<open>Store\<close>

lemma updMarker_inv:
  assumes "\<And>m. markerInv m \<Longrightarrow> markerInv (f m)" and "storeInv ms"
  shows "storeInv (updMarker f a ms)"
  using assms by (auto simp: storeInv_def updMarker_def split: option.splits if_splits)

lemma fold_updMarker_inv:
  assumes "\<And>m. markerInv m \<Longrightarrow> markerInv (f m)"
  shows "storeInv ms \<Longrightarrow> storeInv (fold (updMarker f) hs ms)"
  by (induction hs arbitrary: ms) (simp_all add: updMarker_inv assms)

lemma atBuilding_inv:
  assumes "\<And>m. markerInv m \<Longrightarrow> markerInv (f m)" and "storeInv ms"
  shows "storeInv (atBuilding bIdx f bid ms)"
  using assms by (simp add: atBuilding_def updMarker_inv split: option.splits)

lemma fold_atBuilding_inv:
  assumes "\<And>m. markerInv m \<Longrightarrow> markerInv (f m)"
  shows "storeInv ms \<Longrightarrow> storeInv (fold (atBuilding bIdx f) ids ms)"
  by (induction ids arbitrary: ms) (simp_all add: atBuilding_inv assms)

lemma setOwnerSelection_inv:
  "storeInv ms \<Longrightarrow> storeInv (setOwnerSelection z oIdx k sel ms)"
  by (simp add: setOwnerSelection_def Let_def fold_updMarker_inv adjustMarker_inv)

lemma setBlockSelectionMarkers_inv:
  "storeInv ms \<Longrightarrow> storeInv (setBlockSelectionMarkers z bIdx bbIdx k sel ms)"
  by (simp add: setBlockSelectionMarkers_def Let_def fold_atBuilding_inv adjustMarker_inv)

lemma updLayer_inv:
  assumes "\<And>l. blockInv l \<Longrightarrow> blockInv (f l)" and "\<forall>k l. idx k = Some l \<longrightarrow> blockInv l"
  shows "\<forall>k' l. updLayer f k idx k' = Some l \<longrightarrow> blockInv l"
  using assms by (auto simp: updLayer_def split: option.splits if_splits)

subsection \<open>The filter pass\<close>

lemma filterRow_inv: "storeInv ms \<Longrightarrow> storeInv (snd (filterRow js s row ms))"
  by (simp add: filterRow_def Let_def atBuilding_inv rowMarkerEffect_inv)

lemma filterRows_inv: "storeInv ms \<Longrightarrow> storeInv (fst (snd (filterRows js s rows ms)))"
proof (induction rows arbitrary: ms)
  case Nil
  then show ?case by simp
next
  case (Cons row rows)
  have "storeInv (snd (filterRow js s row ms))" using Cons.prems by (rule filterRow_inv)
  then have "storeInv (fst (snd (filterRows js s rows (snd (filterRow js s row ms)))))"
    by (rule Cons.IH)
  then show ?case by (simp add: split_beta Let_def)
qed

lemma setBlockFiltered_inv: "stateInv s \<Longrightarrow> stateInv (setBlockFiltered k f s)"
  by (auto simp: stateInv_def setBlockFiltered_def updLayer_def setLayerFiltered_inv
           split: option.splits if_splits)

lemma filterBlock_inv: "stateInv s \<Longrightarrow> stateInv (filterBlock vis k s)"
proof -
  assume inv: "stateInv s"
  have a: "stateInv (s\<lparr>blockRows := rows\<rparr>)" for rows
    using inv by (simp add: stateInv_def)
  have b: "stateInv (s'\<lparr>blocksIndex := updLayer (\<lambda>layer. layer\<lparr>selectionRefs := 0\<rparr>) k (blocksIndex s'),
                        markers := setBlockSelectionMarkers z bIdx bbIdx k False (markers s')\<rparr>)"
    if "stateInv s'" for s' z bIdx bbIdx
    using that
    by (auto simp: stateInv_def setBlockSelectionMarkers_inv updLayer_def blockInv_def
             split: option.splits if_splits)
  have c: "stateInv (if cnd then X else Y)" if "stateInv X" "stateInv Y" for cnd X Y
    using that by simp
  show ?thesis
    unfolding filterBlock_def Let_def
    by (intro setBlockFiltered_inv c b a)
qed

lemma fold_filterBlock_inv: "stateInv s \<Longrightarrow> stateInv (fold (filterBlock vis) ks s)"
  by (induction ks arbitrary: s) (simp_all add: filterBlock_inv)

lemma filterLandlord_inv: "storeInv ms \<Longrightarrow> storeInv (snd (filterLandlord s bRows row ms))"
  by (simp add: filterLandlord_def Let_def setOwnerSelection_inv)

lemma filterLandlords_inv: "storeInv ms \<Longrightarrow> storeInv (snd (filterLandlords s bRows rows ms))"
proof (induction rows arbitrary: ms)
  case Nil
  then show ?case by simp
next
  case (Cons row rows)
  have "storeInv (snd (filterLandlord s bRows row ms))" using Cons.prems by (rule filterLandlord_inv)
  then have "storeInv (snd (filterLandlords s bRows rows (snd (filterLandlord s bRows row ms))))"
    by (rule Cons.IH)
  then show ?case by (simp add: split_beta Let_def)
qed

lemma applyFilters_inv: "stateInv s \<Longrightarrow> stateInv (applyFilters js s)"
proof -
  assume inv: "stateInv s"
  let ?r = "filterRows js s (buildingRows s) (markers s)"
  let ?s1 = "s\<lparr>buildingRows := fst ?r, markers := fst (snd ?r)\<rparr>"
  let ?s2 = "fold (filterBlock (snd (snd ?r))) (map fst (blockBuildingIndex ?s1)) ?s1"
  let ?l = "filterLandlords ?s2 (buildingRows ?s2) (landlordRows ?s2) (markers ?s2)"
  have "storeInv (fst (snd ?r))" using inv by (simp add: stateInv_def filterRows_inv)
  then have "stateInv ?s1" using inv by (simp add: stateInv_def)
  then have s2: "stateInv ?s2" by (rule fold_filterBlock_inv)
  then have "storeInv (snd ?l)" by (simp add: stateInv_def filterLandlords_inv)
  then have "stateInv (?s2\<lparr>landlordRows := fst ?l, markers := snd ?l\<rparr>)"
    using s2 by (simp add: stateInv_def)
  then show ?thesis by (simp add: applyFilters_def split_beta Let_def)
qed

subsection \<open>Events\<close>

lemma handleSelectionChange_inv: "stateInv s \<Longrightarrow> stateInv (handleSelectionChange typ key chk s)"
  by (cases "typ")
     (auto simp: handleSelectionChange_def Let_def stateInv_def atBuilding_inv adjustMarker_inv
        setBlockSelectionMarkers_inv setOwnerSelection_inv updLayer_def adjustBlock_inv
        split: option.splits if_splits)

lemma setRowsOf_inv: "stateInv s \<Longrightarrow> stateInv (setRowsOf typ rows s)"
  by (cases "typ") (simp_all add: setRowsOf_def stateInv_def)

lemma clickRow_inv: "stateInv s \<Longrightarrow> stateInv (clickRow typ i s)"
  by (simp add: clickRow_def Let_def handleSelectionChange_inv setRowsOf_inv split: option.splits)

lemma step_inv: "stateInv s \<Longrightarrow> stateInv (step js s ev)"
proof (cases ev)
  case (SelectionChange ty i)
  assume "stateInv s"
  then show ?thesis using SelectionChange by (simp add: clickRow_inv)
next
  case (BuildingHover bid on)
  assume "stateInv s"
  then show ?thesis using BuildingHover
    by (simp add: buildingHover_def stateInv_def atBuilding_inv hoverMarker_inv)
next
  case (BlockHover k on)
  assume "stateInv s"
  then show ?thesis using BlockHover
    by (auto simp: blockHover_def stateInv_def updLayer_def hoverLayer_inv split: option.splits if_splits)
next
  case (OwnerHover k on)
  assume "stateInv s"
  then show ?thesis using OwnerHover
    by (simp add: ownerHover_def Let_def stateInv_def fold_updMarker_inv hoverMarker_inv)
next
  case (FiltersChanged u)
  assume "stateInv s"
  then have "stateInv (s\<lparr>ui := u\<rparr>)" by (simp add: stateInv_def)
  then show ?thesis using FiltersChanged by (simp add: applyFilters_inv)
next
  case (VtuColorScaling en)
  assume "stateInv s"
  then show ?thesis using VtuColorScaling
    by (simp add: applyVtuColorScaling_def stateInv_def fold_atBuilding_inv updateColor_inv)
next
  case (BlockColorScaling en)
  assume "stateInv s"
  then show ?thesis using BlockColorScaling
    by (auto simp: applyBlockColorScaling_def stateInv_def blockInv_def resetBlockStyle_def Let_def)
next
  case (ZoomScaling zoom)
  assume "stateInv s"
  then show ?thesis using ZoomScaling
    by (simp add: applyZoomScaling_def Let_def stateInv_def fold_atBuilding_inv zoomMarker_inv)
qed

lemma run_inv: "stateInv s \<Longrightarrow> stateInv (run js s evs)"
  unfolding run_def by (induction evs arbitrary: s) (simp_all add: step_inv)

lemma initial_inv: "initial s \<Longrightarrow> stateInv s"
  by (auto simp: initial_def stateInv_def storeInv_def markerInv_def blockInv_def)

section \<open>Highlight and filtered state at reachable states\<close>

lemma demo_initial: "initial demoState"
  by (simp add: initial_def demoState_def demoMarkerAt_def demoMarker_def demoLayer_def split: if_splits)

text \<open>
  Claim C1 as stated fails: hover does not go through the counter. After the first
  filter pass, moving the pointer over the row of building \<open>b1\<close> draws the overlay on
  its marker while the marker's count is still 0.
\<close>

theorem hover_highlight_counterexample:
  "initial demoState \<and>
   map_option (\<lambda>m. (highlighted m, isFiltered m, selectionRefs m))
     (markers (run demoJs demoState [FiltersChanged (demoFilterUi True True), BuildingHover ''b1'' True]) ''m1'')
   = Some (True, False, 0)"
proof -
  have "map_option (\<lambda>m. (highlighted m, isFiltered m, selectionRefs m))
     (markers (run demoJs demoState [FiltersChanged (demoFilterUi True True), BuildingHover ''b1'' True]) ''m1'')
   = Some (True, False, 0)"
    by code_simp
  then show ?thesis using demo_initial by simp
qed

lemma adjustMarker_highlight:
  "\<not> isFiltered m \<Longrightarrow> canSetStyle m \<Longrightarrow>
   highlighted (adjustMarkerSelection z m d) = (0 < selectionRefs (adjustMarkerSelection z m d))"
  by (simp add: adjustMarkerSelection_def Let_def highlightMarker_def highlighted_def)

lemma adjustBlock_highlight:
  "\<not> isFiltered l \<Longrightarrow>
   highlighted (adjustBlockSelection en cmax l d) = (0 < selectionRefs (adjustBlockSelection en cmax l d))"
  by (simp add: adjustBlockSelection_def Let_def highlightBlock_def resetBlockStyle_def highlighted_def
        flatNeutral_def)

lemma hover_keeps_count:
  "selectionRefs (hoverMarker z m on) = selectionRefs m"
  "selectionRefs (hoverLayer en cmax l on) = selectionRefs l"
  by (simp_all add: hoverMarker_def hoverLayer_def highlightBlock_def resetBlockStyle_def Let_def)

lemma hover_on_highlights:
  "\<not> isFiltered m \<Longrightarrow> canSetStyle m \<Longrightarrow> highlighted (hoverMarker z m True)"
  "\<not> isFiltered l \<Longrightarrow> highlighted (hoverLayer en cmax l True)"
  by (simp add: hoverMarker_def highlightMarker_on)
     (simp add: hoverLayer_def highlightBlock_def highlighted_def Let_def)

text \<open>
  Claim C1, amended. At every reachable state, a marker that can be styled and a block
  layer carry the highlight overlay only if they are not filtered, and a marker that
  is not filtered and has a positive count carries it. After \<open>adjust\<close> on an entity
  that is not filtered the overlay is on exactly when the new count is positive. Hover
  draws the overlay on an entity that is not filtered without changing its count.
\<close>

theorem highlight_invariant:
  assumes "initial s0"
  shows "(\<forall>a m. markers (run js s0 evs) a = Some m \<and> canSetStyle m \<longrightarrow>
            (highlighted m \<longrightarrow> \<not> isFiltered m) \<and>
            (\<not> isFiltered m \<and> 0 < selectionRefs m \<longrightarrow> highlighted m)) \<and>
         (\<forall>k l. blocksIndex (run js s0 evs) k = Some l \<longrightarrow> (highlighted l \<longrightarrow> \<not> isFiltered l)) \<and>
         (\<not> isFiltered m \<and> canSetStyle m \<longrightarrow>
            highlighted (adjustMarkerSelection z m d) = (0 < selectionRefs (adjustMarkerSelection z m d)) \<and>
            highlighted (hoverMarker z m True) \<and>
            selectionRefs (hoverMarker z m on) = selectionRefs m) \<and>
         (\<not> isFiltered l \<longrightarrow>
            highlighted (adjustBlockSelection en cmax l d) = (0 < selectionRefs (adjustBlockSelection en cmax l d)) \<and>
            highlighted (hoverLayer en cmax l True) \<and>
            selectionRefs (hoverLayer en cmax l on) = selectionRefs l)"
proof -
  have inv: "stateInv (run js s0 evs)"
    using assms by (simp add: initial_inv run_inv)
  have A: "(highlighted m' \<longrightarrow> \<not> isFiltered m') \<and> (\<not> isFiltered m' \<and> 0 < selectionRefs m' \<longrightarrow> highlighted m')"
    if "markers (run js s0 evs) a = Some m'" "canSetStyle m'" for a m'
  proof -
    have "markerInv m'" using inv that by (auto simp: stateInv_def storeInv_def)
    then show ?thesis using that(2) by (auto simp: markerInv_def hiddenStyle_def highlighted_def)
  qed
  have B: "highlighted l' \<longrightarrow> \<not> isFiltered l'" if "blocksIndex (run js s0 evs) k = Some l'" for k l'
  proof -
    have "blockInv l'" using inv that by (auto simp: stateInv_def)
    then show ?thesis by (auto simp: blockInv_def highlighted_def filteredBlockStyle_def)
  qed
  show ?thesis
    using A B by (simp add: adjustMarker_highlight adjustBlock_highlight hover_keeps_count hover_on_highlights) blast
qed

text \<open>Checking the row of building \<open>b1\<close> after the first filter pass: count 1,
  overlay on.\<close>

theorem highlight_invariant_witness:
  "initial demoState \<and>
   map_option (\<lambda>m. (canSetStyle m, isFiltered m, selectionRefs m, highlighted m))
     (markers (run demoJs demoState [FiltersChanged (demoFilterUi True True), SelectionChange Building 0]) ''m1'')
   = Some (True, False, 1, True)"
proof -
  let ?s = "run demoJs demoState [FiltersChanged (demoFilterUi True True), SelectionChange Building 0]"
  have "map_option (\<lambda>m. (canSetStyle m, isFiltered m, selectionRefs m)) (markers ?s ''m1'') = Some (True, False, 1)"
    by code_simp
  then obtain m where m: "markers ?s ''m1'' = Some m" "canSetStyle m" "\<not> isFiltered m" "selectionRefs m = 1"
    by auto
  have "highlighted m"
    using highlight_invariant [OF demo_initial, of demoJs "[FiltersChanged (demoFilterUi True True), SelectionChange Building 0]"] m
    by auto
  then show ?thesis using m demo_initial by simp
qed

text \<open>
  Claim C2 as stated fails: with only the first neighbourhood checked, building \<open>b2\<close>
  is filtered; checking the row of its owner, which stays visible through \<open>b1\<close>,
  adjusts every marker of the owner, and the filtered marker ends with count 1.
\<close>

theorem filtered_count_counterexample:
  "initial demoState \<and>
   map_option (\<lambda>m. (isFiltered m, selectionRefs m))
     (markers (run demoJs demoState [FiltersChanged (demoFilterUi True False), SelectionChange Owner 0]) ''m2'')
   = Some (True, 1)"
proof -
  have "map_option (\<lambda>m. (isFiltered m, selectionRefs m))
     (markers (run demoJs demoState [FiltersChanged (demoFilterUi True False), SelectionChange Owner 0]) ''m2'')
   = Some (True, 1)"
    by code_simp
  then show ?thesis using demo_initial by simp
qed

lemma filtered_local:
  "selectionRefs (setMarkerVisibility z m False) = 0"
  "isFiltered (setMarkerVisibility z m False)"
  "canSetStyle m \<Longrightarrow> hiddenStyle (shown (setMarkerVisibility z m False))"
  "selectionRefs (setLayerFiltered en cmax l True) = 0"
  "isFiltered (setLayerFiltered en cmax l True)"
  "shown (setLayerFiltered en cmax l True) = filteredBlockStyle"
  by (simp_all add: setMarkerVisibility_def setLayerFiltered_def Let_def hiddenStyle_def)

lemma filtered_adjust:
  "isFiltered m \<Longrightarrow> shown (adjustMarkerSelection z m d) = shown m"
  "isFiltered m \<Longrightarrow> hoverMarker z m on = m"
  "isFiltered l \<Longrightarrow> shown (adjustBlockSelection en cmax l d) = shown l"
  "isFiltered l \<Longrightarrow> hoverLayer en cmax l on = l"
  by (simp_all add: adjustMarkerSelection_def adjustBlockSelection_def hoverMarker_def hoverLayer_def Let_def)

text \<open>
  Claim C2, amended. At every reachable state a filtered marker shows the hidden style
  (no stroke, fill opacity 0, radius 0) and a filtered block layer the grey filtered
  style. Filtering an entity sets its count to zero and gives it that style. On a filtered
  entity \<open>adjust\<close> changes the count, to \<open>max 0 (count + delta)\<close>, and not the style,
  and hover changes nothing.
\<close>

theorem filtered_style_invariant:
  assumes "initial s0"
  shows "(\<forall>a m. markers (run js s0 evs) a = Some m \<and> isFiltered m \<longrightarrow>
            (canSetStyle m \<longrightarrow> hiddenStyle (shown m)) \<and> (canSetRadius m \<longrightarrow> shownRadius m = 0)) \<and>
         (\<forall>k l. blocksIndex (run js s0 evs) k = Some l \<and> isFiltered l \<longrightarrow> shown l = filteredBlockStyle) \<and>
         isFiltered (setMarkerVisibility z m False) \<and>
         selectionRefs (setMarkerVisibility z m False) = 0 \<and>
         (canSetStyle m \<longrightarrow> hiddenStyle (shown (setMarkerVisibility z m False))) \<and>
         isFiltered (setLayerFiltered en cmax l True) \<and>
         selectionRefs (setLayerFiltered en cmax l True) = 0 \<and>
         shown (setLayerFiltered en cmax l True) = filteredBlockStyle \<and>
         (isFiltered m \<longrightarrow>
            shown (adjustMarkerSelection z m d) = shown m \<and>
            selectionRefs (adjustMarkerSelection z m d) = max 0 (selectionRefs m + d) \<and>
            hoverMarker z m on = m) \<and>
         (isFiltered l \<longrightarrow>
            shown (adjustBlockSelection en cmax l d) = shown l \<and>
            selectionRefs (adjustBlockSelection en cmax l d) = max 0 (selectionRefs l + d) \<and>
            hoverLayer en cmax l on = l)"
proof -
  have inv: "stateInv (run js s0 evs)"
    using assms by (simp add: initial_inv run_inv)
  have A: "(canSetStyle m' \<longrightarrow> hiddenStyle (shown m')) \<and> (canSetRadius m' \<longrightarrow> shownRadius m' = 0)"
    if "markers (run js s0 evs) a = Some m'" "isFiltered m'" for a m'
  proof -
    have "markerInv m'" using inv that by (auto simp: stateInv_def storeInv_def)
    then show ?thesis using that(2) by (auto simp: markerInv_def)
  qed
  have B: "shown l' = filteredBlockStyle"
    if "blocksIndex (run js s0 evs) k = Some l'" "isFiltered l'" for k l'
  proof -
    have "blockInv l'" using inv that by (auto simp: stateInv_def)
    then show ?thesis using that(2) by (auto simp: blockInv_def)
  qed
  show ?thesis
    using A B by (simp add: filtered_local filtered_adjust adjustMarker_refs adjustBlock_refs) blast
qed

text \<open>Building \<open>b2\<close> after a filter pass that excludes its neighbourhood.\<close>

theorem filtered_style_invariant_witness:
  "initial demoState \<and>
   map_option (\<lambda>m. (isFiltered m, canSetStyle m, canSetRadius m, hiddenStyle (shown m), shownRadius m))
     (markers (run demoJs demoState [FiltersChanged (demoFilterUi True False)]) ''m2'')
   = Some (True, True, True, True, 0)"
proof -
  let ?s = "run demoJs demoState [FiltersChanged (demoFilterUi True False)]"
  have "map_option (\<lambda>m. (isFiltered m, canSetStyle m, canSetRadius m)) (markers ?s ''m2'') = Some (True, True, True)"
    by code_simp
  then obtain m where m: "markers ?s ''m2'' = Some m" "isFiltered m" "canSetStyle m" "canSetRadius m"
    by auto
  have "hiddenStyle (shown m) \<and> shownRadius m = 0"
    using filtered_style_invariant [OF demo_initial, of demoJs "[FiltersChanged (demoFilterUi True False)]"] m
    by auto
  then show ?thesis using m demo_initial by simp
qed

section \<open>Block visibility after a filter pass\<close>

lemma filterRows_visible:
  "snd (snd (filterRows js s rows ms)) =
   map (\<lambda>row. keyOf (getAttribute row ''data-bid'')) (filter (rowMatches js (ui s)) rows)"
  by (induction rows arbitrary: ms) (simp_all add: split_beta Let_def)

lemma setLayerFiltered_flag [simp]: "isFiltered (setLayerFiltered en cmax l f) = f"
  by (simp add: setLayerFiltered_def resetBlockStyle_def Let_def)

lemma filterBlock_index [simp]:
  "blockBuildingIndex (filterBlock vis k s) = blockBuildingIndex s"
  by (simp add: filterBlock_def setBlockFiltered_def Let_def)

lemma filterBlock_other:
  "k' \<noteq> k \<Longrightarrow> blocksIndex (filterBlock vis k s) k' = blocksIndex s k'"
  by (simp add: filterBlock_def setBlockFiltered_def updLayer_def Let_def split: option.splits)

lemma filterBlock_self:
  assumes "blocksIndex s k = Some l"
  shows "\<exists>l'. blocksIndex (filterBlock vis k s) k = Some l' \<and>
              isFiltered l' =
                (\<not> (\<exists>id \<in> set (case map_of (blockBuildingIndex s) k of None \<Rightarrow> [] | Some ids \<Rightarrow> ids).
                       id \<in> set vis))"
  using assms
  by (simp add: filterBlock_def setBlockFiltered_def updLayer_def Let_def split: option.splits)

lemma fold_filterBlock_index [simp]:
  "blockBuildingIndex (fold (filterBlock vis) ks s) = blockBuildingIndex s"
  by (induction ks arbitrary: s) simp_all

lemma fold_filterBlock_untouched:
  "k \<notin> set ks \<Longrightarrow> blocksIndex (fold (filterBlock vis) ks s) k = blocksIndex s k"
  by (induction ks arbitrary: s) (simp_all add: filterBlock_other)

lemma fold_filterBlock_sets:
  "k \<in> set ks \<Longrightarrow> blocksIndex s k = Some l \<Longrightarrow>
   \<exists>l'. blocksIndex (fold (filterBlock vis) ks s) k = Some l' \<and>
        isFiltered l' =
          (\<not> (\<exists>id \<in> set (case map_of (blockBuildingIndex s) k of None \<Rightarrow> [] | Some ids \<Rightarrow> ids).
                 id \<in> set vis))"
proof (induction ks arbitrary: s l)
  case Nil
  then show ?case by simp
next
  case (Cons x xs)
  obtain l1 where l1: "blocksIndex (filterBlock vis x s) k = Some l1"
    using Cons.prems(2) filterBlock_self [of s k l vis] filterBlock_other [of k x vis s]
    by (cases "k = x") auto
  show ?case
  proof (cases "k \<in> set xs")
    case True
    from Cons.IH [OF True l1] show ?thesis by simp
  next
    case False
    with Cons.prems(1) have kx: "k = x" by simp
    have "blocksIndex (fold (filterBlock vis) xs (filterBlock vis x s)) k
          = blocksIndex (filterBlock vis x s) k"
      using False by (rule fold_filterBlock_untouched)
    then show ?thesis
      using filterBlock_self [OF Cons.prems(2) [unfolded kx], of vis] kx by simp
  qed
qed

lemma applyFilters_blocksIndex:
  "blocksIndex (applyFilters js s) =
   blocksIndex (fold (filterBlock (passing js s)) (map fst (blockBuildingIndex s))
     (s\<lparr>buildingRows := fst (filterRows js s (buildingRows s) (markers s)),
        markers := fst (snd (filterRows js s (buildingRows s) (markers s)))\<rparr>))"
  by (simp add: applyFilters_def split_beta Let_def passing_def filterRows_visible)

lemma applyFilters_index [simp]:
  "blockBuildingIndex (applyFilters js s) = blockBuildingIndex s"
  by (simp add: applyFilters_def split_beta Let_def)

lemma applyFilters_unlinked:
  "blockId \<notin> fst ` set (blockBuildingIndex s) \<Longrightarrow>
   blocksIndex (applyFilters js s) blockId = blocksIndex s blockId"
  by (simp add: applyFilters_blocksIndex fold_filterBlock_untouched)

lemma applyFilters_linked:
  assumes "map_of (blockBuildingIndex s) blockId = Some ids" and "blocksIndex s blockId = Some l"
  shows "\<exists>l'. blocksIndex (applyFilters js s) blockId = Some l' \<and>
              (\<not> isFiltered l') = (\<exists>id \<in> set ids. id \<in> set (passing js s))"
proof -
  let ?s1 = "s\<lparr>buildingRows := fst (filterRows js s (buildingRows s) (markers s)),
               markers := fst (snd (filterRows js s (buildingRows s) (markers s)))\<rparr>"
  have k: "blockId \<in> set (map fst (blockBuildingIndex s))"
    using assms(1) by (auto dest: map_of_SomeD intro: rev_image_eqI)
  have l: "blocksIndex ?s1 blockId = Some l" using assms(2) by simp
  from fold_filterBlock_sets [OF k l, of "passing js s"] assms(1)
  show ?thesis by (auto simp: applyFilters_blocksIndex)
qed

lemma isFiltered_kept [simp]:
  "isFiltered (adjustBlockSelection en cmax l d) = isFiltered l"
  "isFiltered (hoverLayer en cmax l on) = isFiltered l"
  "isFiltered (resetBlockStyle en cmax l) = isFiltered l"
  by (simp_all add: adjustBlockSelection_def hoverLayer_def highlightBlock_def resetBlockStyle_def Let_def)

lemma step_index [simp]: "blockBuildingIndex (step js s ev) = blockBuildingIndex s"
proof (cases ev)
  case (SelectionChange ty i)
  then show ?thesis
    by (cases ty)
       (simp_all add: clickRow_def handleSelectionChange_def setRowsOf_def rowsOf_def Let_def
          split: option.splits)
qed (simp_all add: buildingHover_def blockHover_def ownerHover_def applyVtuColorScaling_def
       applyBlockColorScaling_def applyZoomScaling_def Let_def)

lemma step_unlinked:
  "k \<notin> fst ` set (blockBuildingIndex s) \<Longrightarrow>
   map_option isFiltered (blocksIndex (step js s ev) k) = map_option isFiltered (blocksIndex s k)"
proof (cases ev)
  case (SelectionChange ty i)
  then show ?thesis
    by (cases ty)
       (simp_all add: clickRow_def handleSelectionChange_def setRowsOf_def rowsOf_def Let_def
          updLayer_def split: option.splits)
next
  case (FiltersChanged u)
  assume "k \<notin> fst ` set (blockBuildingIndex s)"
  then show ?thesis using FiltersChanged by (simp add: applyFilters_unlinked)
qed (simp_all add: buildingHover_def blockHover_def ownerHover_def applyVtuColorScaling_def
       applyBlockColorScaling_def applyZoomScaling_def Let_def updLayer_def option.map_comp comp_def
       split: option.splits)

lemma run_index [simp]: "blockBuildingIndex (run js s evs) = blockBuildingIndex s"
  unfolding run_def by (induction evs arbitrary: s) simp_all

lemma run_unlinked:
  "k \<notin> fst ` set (blockBuildingIndex s) \<Longrightarrow>
   map_option isFiltered (blocksIndex (run js s evs) k) = map_option isFiltered (blocksIndex s k)"
  unfolding run_def
proof (induction evs arbitrary: s)
  case Nil
  then show ?case by simp
next
  case (Cons ev evs)
  have "k \<notin> fst ` set (blockBuildingIndex (step js s ev))" using Cons.prems by simp
  from Cons.IH [OF this] step_unlinked [OF Cons.prems, of js ev] show ?case by simp
qed

text \<open>
  Claim C3 as stated fails for a block without linked buildings: the second loop of
  \<open>applyFilters\<close> runs over the keys of \<open>blockBuildingIndex\<close>, and block \<open>k0\<close> is
  none of them, so after a filter pass it is still not filtered and its row is not
  hidden.
\<close>

theorem empty_block_visible_counterexample:
  "initial demoState \<and>
   map_of (blockBuildingIndex demoState) ''k0'' = None \<and>
   map_option isFiltered
     (blocksIndex (run demoJs demoState [FiltersChanged (demoFilterUi True True)]) ''k0'') = Some False \<and>
   map hidden (blockRows (run demoJs demoState [FiltersChanged (demoFilterUi True True)])) = [False, False]"
proof -
  have "map_of (blockBuildingIndex demoState) ''k0'' = None \<and>
   map_option isFiltered
     (blocksIndex (run demoJs demoState [FiltersChanged (demoFilterUi True True)]) ''k0'') = Some False \<and>
   map hidden (blockRows (run demoJs demoState [FiltersChanged (demoFilterUi True True)])) = [False, False]"
    by code_simp
  then show ?thesis using demo_initial by simp
qed

text \<open>
  Claim C3, amended. After a filter pass, a block that has linked buildings and a layer
  is visible (not filtered) exactly when one of its linked buildings is the
  \<open>data-bid\<close> of a row that passes the filter. A block without linked buildings is not
  touched by the pass, and at every reachable state it is not filtered.
\<close>

theorem block_visibility:
  "(map_of (blockBuildingIndex s) blockId = Some ids \<and> blocksIndex s blockId = Some l \<longrightarrow>
      (\<exists>l'. blocksIndex (applyFilters js s) blockId = Some l' \<and>
            (\<not> isFiltered l') = (\<exists>id \<in> set ids. id \<in> set (passing js s)))) \<and>
   (blockId \<notin> fst ` set (blockBuildingIndex s) \<longrightarrow>
      blocksIndex (applyFilters js s) blockId = blocksIndex s blockId) \<and>
   (initial s0 \<and> blockId \<notin> fst ` set (blockBuildingIndex s0) \<and>
    blocksIndex (run js s0 evs) blockId = Some l0 \<longrightarrow> \<not> isFiltered l0)"
proof -
  have C: "\<not> isFiltered l0"
    if "initial s0" "blockId \<notin> fst ` set (blockBuildingIndex s0)"
       "blocksIndex (run js s0 evs) blockId = Some l0"
  proof -
    from run_unlinked [OF that(2), of js evs] that(3)
    obtain l1 where "blocksIndex s0 blockId = Some l1" "isFiltered l1 = isFiltered l0"
      by (cases "blocksIndex s0 blockId") auto
    then show ?thesis using that(1) by (auto simp: initial_def)
  qed
  show ?thesis
    using applyFilters_linked [of s blockId ids l js] applyFilters_unlinked [of blockId s js] C
    by blast
qed

text \<open>Block \<open>k1\<close> is visible through building \<open>b1\<close>; block \<open>k0\<close> is left as it was.\<close>

theorem block_visibility_witness:
  "map_of (blockBuildingIndex demoState) ''k1'' = Some [''b1'', ''b3''] \<and>
   passing demoJs demoState = [''b1'', ''b2''] \<and>
   map_option isFiltered (blocksIndex (applyFilters demoJs demoState) ''k1'') = Some False \<and>
   ''k0'' \<notin> fst ` set (blockBuildingIndex demoState) \<and>
   blocksIndex (applyFilters demoJs demoState) ''k0'' = blocksIndex demoState ''k0'' \<and>
   initial demoState \<and>
   map_option isFiltered (blocksIndex (run demoJs demoState [FiltersChanged (demoFilterUi False False)]) ''k0'')
     = Some False"
proof -
  have a: "map_of (blockBuildingIndex demoState) ''k1'' = Some [''b1'', ''b3'']"
    and b: "blocksIndex demoState ''k1'' = Some (demoLayer 50)"
    and c: "''k0'' \<notin> fst ` set (blockBuildingIndex demoState)"
    by (simp_all add: demoState_def)
  have p: "passing demoJs demoState = [''b1'', ''b2'']"
    by code_simp
  have d: "map_option (\<lambda>l. ()) (blocksIndex (run demoJs demoState [FiltersChanged (demoFilterUi False False)]) ''k0'') = Some ()"
    by code_simp
  then obtain l0 where l0: "blocksIndex (run demoJs demoState [FiltersChanged (demoFilterUi False False)]) ''k0'' = Some l0"
    by auto
  note t = block_visibility [of demoState "''k1''" "[''b1'', ''b3'']" "demoLayer 50" demoJs]
  note u = block_visibility [of demoState "''k0''" "[]" "demoLayer 50" demoJs demoState "[FiltersChanged (demoFilterUi False False)]" l0]
  from t a b p have "map_option isFiltered (blocksIndex (applyFilters demoJs demoState) ''k1'') = Some False"
    by auto
  moreover from u c have "blocksIndex (applyFilters demoJs demoState) ''k0'' = blocksIndex demoState ''k0''"
    by blast
  moreover from u c l0 demo_initial have "\<not> isFiltered l0" by blast
  ultimately show ?thesis using a p c l0 demo_initial by simp
qed

section \<open>What a filter pass leaves alone\<close>

lemma updMarker_apply:
  "updMarker f a' ms a = (if a = a' then map_option f (ms a) else ms a)"
  by (simp add: updMarker_def split: option.splits)

lemma fold_updMarker_frame:
  "a \<notin> set hs \<Longrightarrow> fold (updMarker f) hs ms a = ms a"
  by (induction hs arbitrary: ms) (auto simp: updMarker_apply)

lemma atBuilding_frame:
  "map_of bIdx bid \<noteq> Some a \<Longrightarrow> atBuilding bIdx f bid ms a = ms a"
  by (auto simp: atBuilding_def updMarker_apply split: option.splits)

lemma fold_atBuilding_frame:
  "a \<notin> set (List.map_filter (map_of bIdx) ids) \<Longrightarrow> fold (atBuilding bIdx f) ids ms a = ms a"
proof (induction ids arbitrary: ms)
  case Nil
  then show ?case by simp
next
  case (Cons x xs)
  from Cons.prems have x: "map_of bIdx x \<noteq> Some a" and xs: "a \<notin> set (List.map_filter (map_of bIdx) xs)"
    by (auto simp: map_filter_simps split: option.splits)
  show ?case using Cons.IH [OF xs] x by (simp add: atBuilding_frame)
qed

text \<open>Operations that keep \<open>_isFiltered\<close> keep it through the store.\<close>

lemma updMarker_flag:
  assumes "\<And>m. isFiltered (f m) = isFiltered m"
  shows "map_option isFiltered (updMarker f a' ms a) = map_option isFiltered (ms a)"
  using assms by (cases "ms a") (auto simp: updMarker_apply)

lemma fold_updMarker_flag:
  assumes "\<And>m. isFiltered (f m) = isFiltered m"
  shows "map_option isFiltered (fold (updMarker f) hs ms a) = map_option isFiltered (ms a)"
  by (induction hs arbitrary: ms) (simp_all add: updMarker_flag assms)

lemma atBuilding_flag:
  assumes "\<And>m. isFiltered (f m) = isFiltered m"
  shows "map_option isFiltered (atBuilding bIdx f bid ms a) = map_option isFiltered (ms a)"
  using assms by (simp add: atBuilding_def updMarker_flag split: option.splits)

lemma fold_atBuilding_flag:
  assumes "\<And>m. isFiltered (f m) = isFiltered m"
  shows "map_option isFiltered (fold (atBuilding bIdx f) ids ms a) = map_option isFiltered (ms a)"
  by (induction ids arbitrary: ms) (simp_all add: atBuilding_flag assms)

lemma setBlockSelectionMarkers_flag:
  "map_option isFiltered (setBlockSelectionMarkers z bIdx bbIdx k sel ms a) = map_option isFiltered (ms a)"
  by (simp add: setBlockSelectionMarkers_def Let_def fold_atBuilding_flag)

lemma setOwnerSelection_flag:
  "map_option isFiltered (setOwnerSelection z oIdx k sel ms a) = map_option isFiltered (ms a)"
  by (simp add: setOwnerSelection_def Let_def fold_updMarker_flag)

subsection \<open>First loop\<close>

lemma filterRows_frame:
  "\<forall>row \<in> set rows. map_of (buildingIndex s) (keyOf (getAttribute row ''data-bid'')) \<noteq> Some a \<Longrightarrow>
   fst (snd (filterRows js s rows ms)) a = ms a"
proof (induction rows arbitrary: ms)
  case Nil
  then show ?case by simp
next
  case (Cons row rows)
  have 1: "snd (filterRow js s row ms) a = ms a"
    using Cons.prems by (simp add: filterRow_def Let_def atBuilding_frame)
  have 2: "fst (snd (filterRows js s rows (snd (filterRow js s row ms)))) a
           = snd (filterRow js s row ms) a"
    using Cons.prems by (intro Cons.IH) simp
  show ?case using 1 2 by (simp add: split_beta Let_def)
qed

subsection \<open>Second loop\<close>

lemma filterBlock_fields [simp]:
  "buildingIndex (filterBlock vis k s) = buildingIndex s"
  "ownerIndex (filterBlock vis k s) = ownerIndex s"
  "landlordRows (filterBlock vis k s) = landlordRows s"
  "buildingRows (filterBlock vis k s) = buildingRows s"
  "currentZoomScale (filterBlock vis k s) = currentZoomScale s"
  by (simp_all add: filterBlock_def setBlockFiltered_def Let_def)

lemma fold_filterBlock_fields [simp]:
  "buildingIndex (fold (filterBlock vis) ks s) = buildingIndex s"
  "ownerIndex (fold (filterBlock vis) ks s) = ownerIndex s"
  "landlordRows (fold (filterBlock vis) ks s) = landlordRows s"
  "buildingRows (fold (filterBlock vis) ks s) = buildingRows s"
  "currentZoomScale (fold (filterBlock vis) ks s) = currentZoomScale s"
  by (induction ks arbitrary: s) simp_all

lemma blockMembers_filterBlock [simp]:
  "blockMembers (filterBlock vis k s) = blockMembers s"
  by (simp add: blockMembers_def fun_eq_iff)

lemma filterBlock_flag:
  "map_option isFiltered (markers (filterBlock vis k s) a) = map_option isFiltered (markers s a)"
  by (simp add: filterBlock_def setBlockFiltered_def Let_def setBlockSelectionMarkers_flag)

lemma fold_filterBlock_flag:
  "map_option isFiltered (markers (fold (filterBlock vis) ks s) a) = map_option isFiltered (markers s a)"
  by (induction ks arbitrary: s) (simp_all add: filterBlock_flag)

lemma rowsBelow_refl: "rowsBelow rows rows"
  by (simp add: rowsBelow_def list_all2_same)

lemma rowsBelow_find:
  "rowsBelow rows' rows \<Longrightarrow> find (isBlockRow k) rows' = Some r' \<Longrightarrow> rowSelect r' = Some True \<Longrightarrow>
   \<exists>r \<in> set rows. getAttribute r ''data-block'' = Some k \<and> rowSelect r = Some True"
  unfolding rowsBelow_def
proof (induction rows' rows rule: list_all2_induct)
  case Nil
  then show ?case by simp
next
  case (Cons x xs y ys)
  then show ?case
    by (cases "isBlockRow k x") (auto simp: isBlockRow_def getAttribute_def)
qed

lemma rowsBelow_updFirst:
  assumes "\<And>r. attrs (f r) = attrs r \<and> (rowSelect (f r) = Some True \<longrightarrow> rowSelect r = Some True)"
  shows "rowsBelow rows' rows \<Longrightarrow> rowsBelow (updFirst P f rows') rows"
  unfolding rowsBelow_def
proof (induction rows' rows rule: list_all2_induct)
  case Nil
  then show ?case by simp
next
  case (Cons x xs y ys)
  then show ?case using assms [of x] by auto
qed

lemma filterBlock_rows:
  "rowsBelow (blockRows s) rows0 \<Longrightarrow> rowsBelow (blockRows (filterBlock vis k s)) rows0"
  by (simp add: filterBlock_def setBlockFiltered_def Let_def rowsBelow_updFirst)

lemma filterBlock_frame:
  assumes below: "rowsBelow (blockRows s) rows0"
    and free: "\<forall>row \<in> set rows0. rowSelect row = Some True \<longrightarrow>
                 a \<notin> set (blockMembers s (keyOf (getAttribute row ''data-block'')))"
  shows "markers (filterBlock vis k s) a = markers s a"
proof (cases "\<exists>r. find (isBlockRow k) (blockRows s) = Some r \<and> rowSelect r = Some True")
  case True
  then obtain r where r: "find (isBlockRow k) (blockRows s) = Some r" "rowSelect r = Some True"
    by blast
  from rowsBelow_find [OF below r] obtain r0 where
    "r0 \<in> set rows0" "getAttribute r0 ''data-block'' = Some k" "rowSelect r0 = Some True"
    by blast
  with free have "a \<notin> set (blockMembers s k)" by (auto simp: keyOf_def)
  then have "setBlockSelectionMarkers z (buildingIndex s) (blockBuildingIndex s) k False (markers s) a
             = markers s a" for z
    by (simp add: setBlockSelectionMarkers_def blockMembers_def Let_def fold_atBuilding_frame)
  then show ?thesis
    by (simp add: filterBlock_def setBlockFiltered_def Let_def)
next
  case False
  then show ?thesis
    by (auto simp: filterBlock_def setBlockFiltered_def Let_def split: option.splits)
qed

lemma fold_filterBlock_frame:
  assumes free: "\<forall>row \<in> set rows0. rowSelect row = Some True \<longrightarrow>
                 a \<notin> set (blockMembers s (keyOf (getAttribute row ''data-block'')))"
  shows "rowsBelow (blockRows s) rows0 \<Longrightarrow> blockMembers s' = blockMembers s \<Longrightarrow>
         rowsBelow (blockRows s') rows0 \<Longrightarrow>
         markers (fold (filterBlock vis) ks s') a = markers s' a"
proof (induction ks arbitrary: s')
  case Nil
  then show ?case by simp
next
  case (Cons k ks)
  have free': "\<forall>row \<in> set rows0. rowSelect row = Some True \<longrightarrow>
                 a \<notin> set (blockMembers s' (keyOf (getAttribute row ''data-block'')))"
    using free Cons.prems(2) by simp
  have 1: "markers (filterBlock vis k s') a = markers s' a"
    by (rule filterBlock_frame [OF Cons.prems(3) free'])
  have 2: "markers (fold (filterBlock vis) ks (filterBlock vis k s')) a = markers (filterBlock vis k s') a"
    using Cons.prems by (intro Cons.IH) (simp_all add: filterBlock_rows)
  show ?case using 1 2 by simp
qed

subsection \<open>Third loop\<close>

lemma filterLandlords_flag:
  "map_option isFiltered (snd (filterLandlords s bRows rows ms) a) = map_option isFiltered (ms a)"
proof (induction rows arbitrary: ms)
  case Nil
  then show ?case by simp
next
  case (Cons row rows)
  have "map_option isFiltered (snd (filterLandlord s bRows row ms) a) = map_option isFiltered (ms a)"
    by (simp add: filterLandlord_def Let_def setOwnerSelection_flag)
  with Cons.IH [of "snd (filterLandlord s bRows row ms)"] show ?case
    by (simp add: split_beta Let_def)
qed

lemma filterLandlords_frame:
  "\<forall>row \<in> set rows. rowSelect row = Some True \<longrightarrow>
      a \<notin> set (ownerMembers s (keyOf (getAttribute row ''data-owner''))) \<Longrightarrow>
   snd (filterLandlords s bRows rows ms) a = ms a"
proof (induction rows arbitrary: ms)
  case Nil
  then show ?case by simp
next
  case (Cons row rows)
  have 1: "snd (filterLandlord s bRows row ms) a = ms a"
    using Cons.prems
    by (simp add: filterLandlord_def Let_def setOwnerSelection_def ownerMembers_def fold_updMarker_frame)
  have 2: "snd (filterLandlords s bRows rows (snd (filterLandlord s bRows row ms))) a
           = snd (filterLandlord s bRows row ms) a"
    using Cons.prems by (intro Cons.IH) simp
  show ?case using 1 2 by (simp add: split_beta Let_def)
qed

subsection \<open>The whole pass\<close>

lemma applyFilters_markers:
  "markers (applyFilters js s) =
   (let r = filterRows js s (buildingRows s) (markers s);
        s1 = s\<lparr>buildingRows := fst r, markers := fst (snd r)\<rparr>;
        s2 = fold (filterBlock (snd (snd r))) (map fst (blockBuildingIndex s)) s1
    in snd (filterLandlords s2 (fst r) (landlordRows s) (markers s2)))"
  by (simp add: applyFilters_def split_beta Let_def)

lemma applyFilters_flag:
  assumes "a \<notin> rowHandles s"
  shows "map_option isFiltered (markers (applyFilters js s) a) = map_option isFiltered (markers s a)"
proof -
  have "fst (snd (filterRows js s (buildingRows s) (markers s))) a = markers s a"
    using assms by (intro filterRows_frame) (auto simp: rowHandles_def)
  then show ?thesis
    by (simp add: applyFilters_markers Let_def filterLandlords_flag fold_filterBlock_flag)
qed

lemma applyFilters_frame:
  assumes "a \<notin> rowHandles s" and "a \<notin> cascadeHandles s"
  shows "markers (applyFilters js s) a = markers s a"
proof -
  let ?r = "filterRows js s (buildingRows s) (markers s)"
  let ?s1 = "s\<lparr>buildingRows := fst ?r, markers := fst (snd ?r)\<rparr>"
  let ?s2 = "fold (filterBlock (snd (snd ?r))) (map fst (blockBuildingIndex s)) ?s1"
  have 1: "markers ?s1 a = markers s a"
    using assms(1) by (simp add: filterRows_frame rowHandles_def)
  have bm: "blockMembers ?s1 = blockMembers s"
    by (simp add: blockMembers_def fun_eq_iff)
  have free: "\<forall>row \<in> set (blockRows s). rowSelect row = Some True \<longrightarrow>
                 a \<notin> set (blockMembers s (keyOf (getAttribute row ''data-block'')))"
    using assms(2) by (auto simp: cascadeHandles_def)
  have 2: "markers ?s2 a = markers ?s1 a"
    by (rule fold_filterBlock_frame [OF free rowsBelow_refl bm]) (simp add: rowsBelow_refl)
  have om: "ownerMembers ?s2 = ownerMembers s"
    by (simp add: ownerMembers_def fun_eq_iff)
  have free3: "\<forall>row \<in> set (landlordRows s). rowSelect row = Some True \<longrightarrow>
                 a \<notin> set (ownerMembers ?s2 (keyOf (getAttribute row ''data-owner'')))"
    using assms(2) unfolding om by (auto simp: cascadeHandles_def)
  have 3: "snd (filterLandlords ?s2 (fst ?r) (landlordRows s) (markers ?s2)) a = markers ?s2 a"
    by (rule filterLandlords_frame [OF free3])
  show ?thesis using 1 2 3 by (simp add: applyFilters_markers Let_def)
qed

text \<open>
  Claim C10 as stated fails: building \<open>b3\<close> has a marker and no row in the buildings
  table. Its block \<open>k1\<close> is checked, so its count is 1 and it is highlighted. The next
  filter pass hides every row; the row of \<open>k1\<close> is unchecked and
  \<open>setBlockSelectionMarkers\<close> adjusts every member of the block, \<open>b3\<close> included: its
  count drops to 0 and the overlay is removed.
\<close>

theorem rowless_marker_counterexample:
  "map_of (buildingIndex demoSelected) ''b3'' = Some ''m3'' \<and>
   ''b3'' \<notin> set (map (\<lambda>row. keyOf (getAttribute row ''data-bid'')) (buildingRows demoSelected)) \<and>
   map_option (\<lambda>m. (selectionRefs m, highlighted m)) (markers demoSelected ''m3'') = Some (1, True) \<and>
   map_option (\<lambda>m. (selectionRefs m, highlighted m)) (markers (applyFilters demoJs demoSelected) ''m3'')
     = Some (0, False)"
  by code_simp

lemma unique_handle:
  assumes "distinct (map snd idx)" and "map_of idx k = Some a" and "map_of idx k' = Some a"
  shows "k = k'"
proof -
  have "(k, a) \<in> set idx" "(k', a) \<in> set idx"
    using assms(2,3) by (auto dest: map_of_SomeD)
  moreover have "inj_on snd (set idx)" using assms(1) by (simp add: distinct_map)
  ultimately have "(k, a) = (k', a)"
    by (intro inj_onD [of snd "set idx"]) simp_all
  then show ?thesis by simp
qed

text \<open>
  Claim C10, amended. For a marker object that no row of the buildings table resolves
  to, a filter pass leaves \<open>_isFiltered\<close> as it is; it leaves the whole marker as it is,
  count and style included, when the marker is in addition not a member of a block or
  an owner whose row is checked when the pass starts. When no two building ids share a
  marker object, a building whose id is not the \<open>data-bid\<close> of any row has such a
  marker.
\<close>

theorem filter_pass_frame:
  "(a \<notin> rowHandles s \<longrightarrow>
      map_option isFiltered (markers (applyFilters js s) a) = map_option isFiltered (markers s a)) \<and>
   (a \<notin> rowHandles s \<and> a \<notin> cascadeHandles s \<longrightarrow>
      markers (applyFilters js s) a = markers s a) \<and>
   (distinct (map snd (buildingIndex s)) \<and> map_of (buildingIndex s) bid = Some a \<and>
    bid \<notin> set (map (\<lambda>row. keyOf (getAttribute row ''data-bid'')) (buildingRows s))
    \<longrightarrow> a \<notin> rowHandles s)"
proof -
  have "a \<notin> rowHandles s"
    if "distinct (map snd (buildingIndex s))" "map_of (buildingIndex s) bid = Some a"
       "bid \<notin> set (map (\<lambda>row. keyOf (getAttribute row ''data-bid'')) (buildingRows s))"
  proof
    assume "a \<in> rowHandles s"
    then obtain row where row: "row \<in> set (buildingRows s)"
      "map_of (buildingIndex s) (keyOf (getAttribute row ''data-bid'')) = Some a"
      by (auto simp: rowHandles_def)
    from unique_handle [OF that(1) that(2) row(2)] have "bid = keyOf (getAttribute row ''data-bid'')" .
    with row(1) that(3) show False by auto
  qed
  then show ?thesis
    using applyFilters_flag [of a s js] applyFilters_frame [of a s js] by blast
qed

text \<open>Building \<open>b3\<close>: untouched by the first pass, when no row is checked, and still
  not filtered after the pass that clears the selection of its block.\<close>

theorem filter_pass_frame_witness:
  "distinct (map snd (buildingIndex demoState)) \<and>
   map_of (buildingIndex demoState) ''b3'' = Some ''m3'' \<and>
   ''b3'' \<notin> set (map (\<lambda>row. keyOf (getAttribute row ''data-bid'')) (buildingRows demoState)) \<and>
   ''m3'' \<notin> rowHandles demoState \<and> ''m3'' \<notin> cascadeHandles demoState \<and>
   markers (applyFilters demoJs demoState) ''m3'' = markers demoState ''m3'' \<and>
   ''m3'' \<notin> rowHandles demoSelected \<and>
   map_option isFiltered (markers (applyFilters demoJs demoSelected) ''m3'') = Some False"
proof -
  have a: "distinct (map snd (buildingIndex demoState))"
    "map_of (buildingIndex demoState) ''b3'' = Some ''m3''"
    "''b3'' \<notin> set (map (\<lambda>row. keyOf (getAttribute row ''data-bid'')) (buildingRows demoState))"
    by (simp_all add: demoState_def demoBuildingRow_def getAttribute_def keyOf_def)
  have c: "''m3'' \<notin> cascadeHandles demoState"
    by (simp add: cascadeHandles_def demoState_def demoIdRow_def)
  have b: "distinct (map snd (buildingIndex demoSelected)) \<and>
    map_of (buildingIndex demoSelected) ''b3'' = Some ''m3'' \<and>
    ''b3'' \<notin> set (map (\<lambda>row. keyOf (getAttribute row ''data-bid'')) (buildingRows demoSelected)) \<and>
    map_option isFiltered (markers demoSelected ''m3'') = Some False"
    by code_simp
  note t = filter_pass_frame [of "''m3''" demoState demoJs "''b3''"]
  note u = filter_pass_frame [of "''m3''" demoSelected demoJs "''b3''"]
  from t a have r: "''m3'' \<notin> rowHandles demoState" by blast
  from t r c have "markers (applyFilters demoJs demoState) ''m3'' = markers demoState ''m3''" by blast
  moreover from u b have r': "''m3'' \<notin> rowHandles demoSelected" by blast
  moreover from u r' b have "map_option isFiltered (markers (applyFilters demoJs demoSelected) ''m3'') = Some False"
    by simp
  ultimately show ?thesis using a r c by simp
qed

end
